theory Spec2Isabelle
  imports Main "HOL-Library.AList"
begin

section \<open>ProcImap: the ImapMailbox class over a session port\<close>

text \<open>
  A shallow embedding of \<^verbatim>\<open>src/ProcImap/ImapMailbox.py\<close> (Python 2).  The methods of
  class \<^verbatim>\<open>ImapMailbox\<close> become functions that take the mailbox object and return a
  result together with the updated object; an exception is the left injection of
  the result.  The IMAP session (\<^verbatim>\<open>self._server\<close>) and the library routines of
  \<^verbatim>\<open>imaplib\<close> and \<^verbatim>\<open>ImapMessage\<close> are parameters of the model.  UIDs are integers
  and folder names are strings, so the \<^verbatim>\<open>isinstance\<close> checks on them are decided
  by the types.  What the module prints, the pager (\<^verbatim>\<open>display\<close>), \<^verbatim>\<open>summary\<close> and
  the class \<^verbatim>\<open>ImapServerWrapper\<close> are outside the model.
\<close>

subsection \<open>Python values that occur in the module\<close>

text \<open>
  One element of the \<^verbatim>\<open>data\<close> list that \<^verbatim>\<open>imaplib\<close> returns: \<^verbatim>\<open>None\<close>, a string,
  or a pair of strings (a literal with its envelope).
\<close>

datatype resp_item = RNone | RStr string | RPair string string

type_synonym response = "string \<times> resp_item list"

text \<open>
  The \<^verbatim>\<open>targetmailbox\<close> argument of \<^verbatim>\<open>copy\<close> and \<^verbatim>\<open>move\<close> (and the \<^verbatim>\<open>trash\<close>
  attribute): a \<^verbatim>\<open>str\<close>, an \<^verbatim>\<open>ImapMailbox\<close> (given by the identity of its
  \<^verbatim>\<open>_server\<close> and its \<^verbatim>\<open>name\<close>), another \<^verbatim>\<open>mailbox.Mailbox\<close> (given by a number),
  or an object of any other type.
\<close>

datatype target =
    TStr string
  | TImap nat string
  | TMailbox nat
  | TOther

text \<open>The exception classes that the module raises or that reach it.\<close>

datatype exn_class =
    ImapNotOkError
  | NoSuchUIDError
  | NotSupportedError
  | NoSuchMailboxError
  | KeyError
  | ValueError
  | TypeError
  | AttributeError
  | IndexError
  | NameError
  | UnboundLocalError
  | OtherError

text \<open>
  An exception is its class, the format string of its message and the values
  interpolated into it: \<^verbatim>\<open>raise ImapNotOkError, "%s in search" % code\<close> is
  \<open>Exn ImapNotOkError ''%s in search'' [AStr code]\<close>.
\<close>

datatype fmt_arg = AStr string | AInt int | AStrs "string list" | AData "resp_item list"

datatype exn = Exn exn_class string "fmt_arg list"

fun exn_cls :: "exn \<Rightarrow> exn_class" where
  "exn_cls (Exn c m args) = c"

text \<open>
  An \<^verbatim>\<open>ImapMessage\<close>: the object it was constructed from (a string, or \<^verbatim>\<open>None\<close>),
  and the attributes that \<^verbatim>\<open>get_message\<close> and \<^verbatim>\<open>get_header\<close> set.
\<close>

record view =
  rfc822 :: "string option"
  imapflags :: "string list"
  internaldate :: "int list option"
  msgsize :: int

text \<open>The calls the module makes on its collaborators.\<close>

datatype request =
    UidSearch "string option" string
  | UidFetch int string
  | UidStore int string string
  | UidCopy int string
  | Append string string string string
  | Expunge
  | Select string
  | Create string
  | Reconnect
  | Login
  | Close
  | Logout
  | MboxLock target
  | MboxAdd target view
  | MboxFlush target
  | MboxUnlock target

text \<open>
  The collaborators: \<open>respond\<close> answers a call in a state of the outside world
  (the session object, the server behind it, other mailboxes) with an exception
  or a status and data, and gives the next state; the other fields are the pure
  routines \<^verbatim>\<open>imaplib.ParseFlags\<close>, \<^verbatim>\<open>imaplib.Internaldate2tuple\<close>, and
  \<^verbatim>\<open>flagstring\<close>, \<^verbatim>\<open>internaldatestring\<close> and the flattening of an \<^verbatim>\<open>ImapMessage\<close>.
\<close>

record 'env deps =
  respond :: "'env \<Rightarrow> request \<Rightarrow> (exn + response) \<times> 'env"
  ParseFlags :: "string \<Rightarrow> string list"
  Internaldate2tuple :: "string \<Rightarrow> int list option"
  flagstring :: "view \<Rightarrow> string"
  internaldatestring :: "view \<Rightarrow> string"
  flatten :: "view \<Rightarrow> string"

text \<open>
  The \<^verbatim>\<open>ImapMailbox\<close> object.  \<open>env\<close> is the state of the outside world and
  \<open>sent\<close> the calls made on it so far, oldest first; \<open>server_id\<close> stands for
  the identity of \<^verbatim>\<open>self._server\<close> under \<^verbatim>\<open>==\<close>; \<open>factory = None\<close> is
  \<^verbatim>\<open>self._factory is ImapMessage\<close>.
\<close>

record 'env mailbox =
  env :: 'env
  sent :: "request list"
  server_id :: nat
  name :: string
  trash :: "target option"
  cached_uid :: "int option"
  cached_text :: "string option"
  factory :: "(view \<Rightarrow> view) option"

definition FIX_BUGGY_IMAP_FROMLINE :: bool where
  "FIX_BUGGY_IMAP_FROMLINE = False"

subsection \<open>Strings as Python 2 reads them\<close>

definition isspace :: "char \<Rightarrow> bool" where
  "isspace c = (c = CHR '' '' \<or> c = CHR 0x09 \<or> c = CHR 0x0A \<or> c = CHR 0x0B
     \<or> c = CHR 0x0C \<or> c = CHR 0x0D)"

definition isdigit :: "char \<Rightarrow> bool" where
  "isdigit c = (48 \<le> (of_char c :: nat) \<and> (of_char c :: nat) \<le> 57)"

text \<open>\<^verbatim>\<open>s.split()\<close>: the maximal runs of characters that are not whitespace.\<close>

fun split_acc :: "string \<Rightarrow> string \<Rightarrow> string list" where
  "split_acc w [] = (if w = [] then [] else [w])"
| "split_acc w (c # cs) =
     (if isspace c then (if w = [] then split_acc [] cs else w # split_acc [] cs)
      else split_acc (w @ [c]) cs)"

definition py_split :: "string \<Rightarrow> string list" where
  "py_split s = split_acc [] s"

fun digits_val :: "nat \<Rightarrow> string \<Rightarrow> nat" where
  "digits_val acc [] = acc"
| "digits_val acc (c # cs) = digits_val (10 * acc + (of_char c - 48)) cs"

text \<open>
  \<^verbatim>\<open>int(s)\<close> of a \<^verbatim>\<open>str\<close>: whitespace, an optional sign, whitespace (Python 2
  skips it after the sign as well), one digit or more, whitespace.  \<open>None\<close> is
  \<^verbatim>\<open>ValueError\<close>.
\<close>

definition py_int :: "string \<Rightarrow> int option" where
  "py_int s =
     (let s1 = dropWhile isspace s;
          neg = (s1 \<noteq> [] \<and> hd s1 = CHR ''-'');
          s2 = (if s1 \<noteq> [] \<and> (hd s1 = CHR ''-'' \<or> hd s1 = CHR ''+'') then tl s1 else s1);
          s3 = dropWhile isspace s2;
          ds = takeWhile isdigit s3;
          rest = dropWhile isspace (dropWhile isdigit s3)
      in if ds = [] \<or> rest \<noteq> [] then None
         else Some (if neg then - int (digits_val 0 ds) else int (digits_val 0 ds)))"

text \<open>\<^verbatim>\<open>s.find(sub, start)\<close> for \<open>start \<ge> 0\<close>, and \<^verbatim>\<open>s[start:stop]\<close>.\<close>

fun find_at :: "string \<Rightarrow> string \<Rightarrow> nat \<Rightarrow> int" where
  "find_at sub [] i = (if sub = [] then int i else - 1)"
| "find_at sub (c # cs) i =
     (if take (length sub) (c # cs) = sub then int i else find_at sub cs (Suc i))"

definition py_find :: "string \<Rightarrow> string \<Rightarrow> nat \<Rightarrow> int" where
  "py_find s sub start = (if length s < start then - 1 else find_at sub (drop start s) start)"

definition slice_index :: "nat \<Rightarrow> int \<Rightarrow> nat" where
  "slice_index n i = (if i < 0 then nat (max 0 (int n + i)) else min (nat i) n)"

definition py_slice :: "string \<Rightarrow> int \<Rightarrow> int \<Rightarrow> string" where
  "py_slice s start stop =
     (let a = slice_index (length s) start; b = slice_index (length s) stop
      in take (b - a) (drop a s))"

text \<open>\<^verbatim>\<open>"%s" % x\<close> for \<open>x\<close> a string or \<^verbatim>\<open>None\<close>.\<close>

fun pct_s :: "string option \<Rightarrow> string" where
  "pct_s None = ''None''"
| "pct_s (Some s) = s"

subsection \<open>Statements: state and exceptions\<close>

type_synonym ('a, 'env) action = "'env mailbox \<Rightarrow> (exn + 'a) \<times> 'env mailbox"

definition ret :: "'a \<Rightarrow> ('a, 'env) action" where
  "ret a = (\<lambda>mb. (Inr a, mb))"

definition raise :: "exn \<Rightarrow> ('a, 'env) action" where
  "raise e = (\<lambda>mb. (Inl e, mb))"

definition bindE :: "('a, 'env) action \<Rightarrow> ('a \<Rightarrow> ('b, 'env) action) \<Rightarrow> ('b, 'env) action" where
  "bindE m f = (\<lambda>mb. case m mb of (Inl e, mb') \<Rightarrow> (Inl e, mb') | (Inr a, mb') \<Rightarrow> f a mb')"

text \<open>\<^verbatim>\<open>try: m except <classes>: h\<close>.\<close>

definition except :: "('a, 'env) action \<Rightarrow> (exn_class \<Rightarrow> bool) \<Rightarrow> (exn \<Rightarrow> ('a, 'env) action)
    \<Rightarrow> ('a, 'env) action" where
  "except m catches h =
     (\<lambda>mb. case m mb of
        (Inl e, mb') \<Rightarrow> if catches (exn_cls e) then h e mb' else (Inl e, mb')
      | (Inr a, mb') \<Rightarrow> (Inr a, mb'))"

text \<open>A call on \<^verbatim>\<open>self._server\<close> (or on a foreign mailbox): it is recorded in \<open>sent\<close>.\<close>

definition call :: "'env deps \<Rightarrow> request \<Rightarrow> (response, 'env) action" where
  "call D r = (\<lambda>mb. case respond D (env mb) r of
      (a, e') \<Rightarrow> (a, mb\<lparr>env := e', sent := sent mb @ [r]\<rparr>))"

subsection \<open>Searching\<close>

definition search :: "'env deps \<Rightarrow> string option \<Rightarrow> string option \<Rightarrow> (int list, 'env) action" where
  "search D criteria charset =
     bindE (call D (UidSearch charset (''('' @ pct_s criteria @ '')'')))
       (\<lambda>(code, data).
          case data of
            [] \<Rightarrow> raise (Exn IndexError ''list index out of range'' [])
          | RNone # _ \<Rightarrow> raise (Exn AttributeError ''NoneType object has no attribute split'' [])
          | RPair a b # _ \<Rightarrow> raise (Exn AttributeError ''tuple object has no attribute split'' [])
          | RStr s # _ \<Rightarrow>
              (let uidlist = py_split s in
               if code \<noteq> ''OK'' then raise (Exn ImapNotOkError ''%s in search'' [AStr code])
               else (case those (map py_int uidlist) of
                       Some uids \<Rightarrow> ret uids
                     | None \<Rightarrow> raise (Exn ImapNotOkError ''received unparsable response.'' []))))"

definition get_unseen_uids :: "'env deps \<Rightarrow> (int list, 'env) action" where
  "get_unseen_uids D = search D (Some ''UNSEEN UNDELETED'') None"

definition get_all_uids :: "'env deps \<Rightarrow> (int list, 'env) action" where
  "get_all_uids D = search D (Some ''UNDELETED'') None"

subsection \<open>The message cache\<close>

text \<open>
  \<^verbatim>\<open>data[0][1]\<close> under \<^verbatim>\<open>except TypeError\<close>, with the optional repair of a
  quoted envelope line.
\<close>

definition fix_fromline :: "string \<Rightarrow> string" where
  "fix_fromline s =
     (if FIX_BUGGY_IMAP_FROMLINE then
        (if take 6 s = ''>From '' then py_slice s (py_find s [CHR 0x0A] 0 + 1) (int (length s))
         else s)
      else s)"

definition cache_message :: "'env deps \<Rightarrow> int \<Rightarrow> (string option, 'env) action" where
  "cache_message D uid =
     (\<lambda>mb.
        if cached_uid mb \<noteq> Some uid then
          bindE (call D (UidFetch uid ''(RFC822)''))
            (\<lambda>(code, data).
               if code \<noteq> ''OK'' then
                 raise (Exn ImapNotOkError ''%s in fetch_message(%s)'' [AStr code, AInt uid])
               else
                 (case data of
                    [] \<Rightarrow> raise (Exn IndexError ''list index out of range'' [])
                  | RNone # _ \<Rightarrow> raise (Exn KeyError ''No message %s in _cache_message'' [AInt uid])
                  | RStr s # _ \<Rightarrow>
                      (if length s < 2 then raise (Exn IndexError ''string index out of range'' [])
                       else (\<lambda>mb'. (Inr (Some (fix_fromline [s ! 1])),
                               mb'\<lparr>cached_uid := Some uid,
                                   cached_text := Some (fix_fromline [s ! 1])\<rparr>)))
                  | RPair a b # _ \<Rightarrow>
                      (\<lambda>mb'. (Inr (Some (fix_fromline b)),
                               mb'\<lparr>cached_uid := Some uid, cached_text := Some (fix_fromline b)\<rparr>))))
            mb
        else (Inr (cached_text mb), mb))"

subsection \<open>Flags, internal date and size\<close>

text \<open>
  In \<^verbatim>\<open>get_imapflags\<close> the handler of \<^verbatim>\<open>(TypeError, ValueError)\<close> formats
  \<^verbatim>\<open>code\<close> and \<^verbatim>\<open>data\<close>; when the call itself raised, they are unbound.
\<close>

definition get_imapflags :: "'env deps \<Rightarrow> int \<Rightarrow> (string list, 'env) action" where
  "get_imapflags D uid =
     (\<lambda>mb. case call D (UidFetch uid ''(FLAGS)'') mb of
        (Inl e, mb') \<Rightarrow>
          if exn_cls e = TypeError \<or> exn_cls e = ValueError then
            (Inl (Exn UnboundLocalError ''local variable code referenced before assignment'' []), mb')
          else (Inl e, mb')
      | (Inr (code, data), mb') \<Rightarrow>
          except
            (case data of
               [] \<Rightarrow> raise (Exn IndexError ''list index out of range'' [])
             | flagresult # _ \<Rightarrow>
                 if code \<noteq> ''OK'' then
                   raise (Exn ImapNotOkError ''%s in get_imapflags(%s)'' [AStr code, AInt uid])
                 else (case flagresult of
                         RStr s \<Rightarrow> ret (ParseFlags D s)
                       | _ \<Rightarrow> raise (Exn TypeError ''expected string or buffer'' [])))
            (\<lambda>c. c = TypeError \<or> c = ValueError)
            (\<lambda>_. raise (Exn ValueError
               ''Unexpected results while fetching flags from server for message %s; response was (%s, %s)''
               [AInt uid, AStr code, AData data]))
            mb')"

definition get_internaldate :: "'env deps \<Rightarrow> int \<Rightarrow> (int list option, 'env) action" where
  "get_internaldate D uid =
     except
       (bindE (call D (UidFetch uid ''(INTERNALDATE)''))
          (\<lambda>(code, data).
             case data of
               [] \<Rightarrow> raise (Exn IndexError ''list index out of range'' [])
             | dateresult # _ \<Rightarrow>
                 if code \<noteq> ''OK'' then
                   raise (Exn ImapNotOkError ''%s in get_internaldate(%s)'' [AStr code, AInt uid])
                 else (case dateresult of
                         RNone \<Rightarrow>
                           raise (Exn NoSuchUIDError ''No message %s in get_internaldate'' [AInt uid])
                       | RStr s \<Rightarrow> ret (Internaldate2tuple D s)
                       | RPair a b \<Rightarrow> raise (Exn TypeError ''expected string or buffer'' []))))
       (\<lambda>c. c = TypeError \<or> c = ValueError)
       (\<lambda>_. raise (Exn ValueError
          ''Unexpected results while fetching flags from server for message %s'' [AInt uid]))"

definition get_size :: "'env deps \<Rightarrow> int \<Rightarrow> (int, 'env) action" where
  "get_size D uid =
     except
       (bindE (call D (UidFetch uid ''(RFC822.SIZE)''))
          (\<lambda>(code, data).
             case data of
               [] \<Rightarrow> raise (Exn IndexError ''list index out of range'' [])
             | sizeresult # _ \<Rightarrow>
                 if code \<noteq> ''OK'' then
                   raise (Exn ImapNotOkError ''%s in get_imapflags(%s)'' [AStr code, AInt uid])
                 else (case sizeresult of
                         RNone \<Rightarrow> raise (Exn NoSuchUIDError ''No message %s in get_size'' [AInt uid])
                       | RPair a b \<Rightarrow>
                           raise (Exn AttributeError ''tuple object has no attribute find'' [])
                       | RStr s \<Rightarrow>
                           (let startindex = py_find s ''SIZE'' 0 + 5;
                                stopindex = py_find s '' '' (nat startindex)
                            in case py_int (py_slice s startindex stopindex) of
                                 None \<Rightarrow>
                                   raise (Exn ValueError ''invalid literal for int() with base 10'' [])
                               | Some n \<Rightarrow> ret n))))
       (\<lambda>c. c = TypeError \<or> c = ValueError)
       (\<lambda>_. raise (Exn ValueError
          ''Unexpected results while fetching flags from server for message %s'' [AInt uid]))"

subsection \<open>Reading a message\<close>

definition get_message :: "'env deps \<Rightarrow> int \<Rightarrow> (view, 'env) action" where
  "get_message D uid =
     bindE (cache_message D uid) (\<lambda>rfc822string.
     bindE (get_imapflags D uid) (\<lambda>flags.
     bindE (get_internaldate D uid) (\<lambda>date.
     bindE (get_size D uid) (\<lambda>sz.
       (\<lambda>mb. let result = \<lparr>rfc822 = rfc822string, imapflags = flags,
                             internaldate = date, msgsize = sz\<rparr>
             in case factory mb of
                  None \<Rightarrow> (Inr result, mb)
                | Some f \<Rightarrow> (Inr (f result), mb))))))"

definition getitem :: "'env deps \<Rightarrow> int \<Rightarrow> (view, 'env) action" where
  "getitem D uid = get_message D uid"

definition get_string :: "'env deps \<Rightarrow> int \<Rightarrow> (string option, 'env) action" where
  "get_string D uid = cache_message D uid"

definition get_file :: "'env deps \<Rightarrow> int \<Rightarrow> (string option, 'env) action" where
  "get_file D uid = cache_message D uid"

text \<open>\<^verbatim>\<open>get\<close>: the message, or the default (which may be \<^verbatim>\<open>None\<close>) on \<^verbatim>\<open>KeyError\<close>.\<close>

definition get :: "'env deps \<Rightarrow> int \<Rightarrow> view option \<Rightarrow> (view option, 'env) action" where
  "get D uid dflt =
     except (bindE (getitem D uid) (\<lambda>message. ret (Some message)))
       (\<lambda>c. c = KeyError)
       (\<lambda>_. ret dflt)"

definition has_key :: "'env deps \<Rightarrow> int \<Rightarrow> (bool, 'env) action" where
  "has_key D uid = bindE (search D (Some ''ALL'') None) (\<lambda>uids. ret (uid \<in> set uids))"

definition contains :: "'env deps \<Rightarrow> int \<Rightarrow> (bool, 'env) action" where
  "contains D uid = has_key D uid"

definition len :: "'env deps \<Rightarrow> (nat, 'env) action" where
  "len D = bindE (search D (Some ''ALL'') None) (\<lambda>uids. ret (length uids))"

definition iterkeys :: "'env deps \<Rightarrow> (int list, 'env) action" where
  "iterkeys D = search D (Some ''ALL'') None"

definition keys :: "'env deps \<Rightarrow> (int list, 'env) action" where
  "keys D = search D None (Some ''ALL'')"

subsection \<open>Flags and expunge\<close>

definition expunge :: "'env deps \<Rightarrow> (unit, 'env) action" where
  "expunge D = bindE (call D Expunge) (\<lambda>_. ret ())"

definition flush :: "'env deps \<Rightarrow> (unit, 'env) action" where
  "flush D = expunge D"

fun add_imapflag :: "'env deps \<Rightarrow> int \<Rightarrow> string list \<Rightarrow> (unit, 'env) action" where
  "add_imapflag D uid [] = ret ()"
| "add_imapflag D uid (flag # flags) =
     bindE (call D (UidStore uid ''+FLAGS'' (''('' @ flag @ '')'')))
       (\<lambda>(code, data).
          if code \<noteq> ''OK'' then
            raise (Exn ImapNotOkError ''%s in add_flags(%s, %s): %s''
                     [AInt uid, AStr flag, AStr code, AData data])
          else add_imapflag D uid flags)"

fun remove_imapflag :: "'env deps \<Rightarrow> int \<Rightarrow> string list \<Rightarrow> (unit, 'env) action" where
  "remove_imapflag D uid [] = ret ()"
| "remove_imapflag D uid (flag # flags) =
     bindE (call D (UidStore uid ''-FLAGS'' (''('' @ flag @ '')'')))
       (\<lambda>(code, data).
          if code \<noteq> ''OK'' then
            raise (Exn ImapNotOkError ''%s in remove_flag(%s, %s): %s''
                     [AInt uid, AStr flag, AStr code, AData data])
          else remove_imapflag D uid flags)"

text \<open>\<^verbatim>\<open>' '.join(flags)\<close>.\<close>

fun join_sp :: "string list \<Rightarrow> string" where
  "join_sp [] = []"
| "join_sp [w] = w"
| "join_sp (w # ws) = w @ '' '' @ join_sp ws"

text \<open>The \<^verbatim>\<open>flags\<close> argument of \<^verbatim>\<open>set_imapflags\<close>: a string, or an iterable of strings.\<close>

datatype flags_arg = OneFlag string | Flags "string list"

definition set_imapflags :: "'env deps \<Rightarrow> int \<Rightarrow> flags_arg \<Rightarrow> (unit, 'env) action" where
  "set_imapflags D uid flags =
     (let flags' = (case flags of OneFlag f \<Rightarrow> [f] | Flags fs \<Rightarrow> fs);
          flagstring = ''('' @ join_sp flags' @ '')''
      in bindE (call D (UidStore uid ''FLAGS'' flagstring))
           (\<lambda>(code, data).
              if code \<noteq> ''OK'' then
                raise (Exn ImapNotOkError ''%s in set_imapflags(%s, %s): %s''
                         [AStr code, AInt uid, AStrs flags', AData data])
              else ret ()))"

subsection \<open>Copy, move, discard\<close>

text \<open>\<^verbatim>\<open>__eq__\<close>: equal in server and name.\<close>

fun mailbox_eq :: "'env mailbox \<Rightarrow> target \<Rightarrow> bool" where
  "mailbox_eq mb (TImap sid n) = (sid = server_id mb \<and> n = name mb)"
| "mailbox_eq mb _ = False"

text \<open>\<^verbatim>\<open>targetmailbox != self.name\<close>.\<close>

fun ne_name :: "target \<Rightarrow> string \<Rightarrow> bool" where
  "ne_name (TStr s) n = (s \<noteq> n)"
| "ne_name _ n = True"

definition copy :: "'env deps \<Rightarrow> int \<Rightarrow> target \<Rightarrow> (unit, 'env) action" where
  "copy D uid targetmailbox =
     (\<lambda>mb.
        let targetmailbox' =
              (case targetmailbox of
                 TImap sid n \<Rightarrow> if sid = server_id mb then TStr n else targetmailbox
               | _ \<Rightarrow> targetmailbox)
        in (case targetmailbox' of
              TStr n \<Rightarrow>
                if n \<noteq> name mb then
                  bindE (call D (UidCopy uid n))
                    (\<lambda>(code, data).
                       if code \<noteq> ''OK'' then
                         raise (Exn ImapNotOkError ''%s in copy: %s'' [AStr code, AData data])
                       else ret ()) mb
                else (Inr (), mb)
            | TOther \<Rightarrow> (Inl (Exn TypeError ''targetmailbox in copy is of unknown type.'' []), mb)
            | _ \<Rightarrow>
                if \<not> mailbox_eq mb targetmailbox' then
                  bindE (call D (MboxLock targetmailbox')) (\<lambda>_.
                  bindE (getitem D uid) (\<lambda>message.
                  bindE (call D (MboxAdd targetmailbox' message)) (\<lambda>_.
                  bindE (call D (MboxFlush targetmailbox')) (\<lambda>_.
                  bindE (call D (MboxUnlock targetmailbox')) (\<lambda>_. ret ()))))) mb
                else (Inr (), mb)))"

definition move :: "'env deps \<Rightarrow> int \<Rightarrow> target \<Rightarrow> (unit, 'env) action" where
  "move D uid targetmailbox =
     bindE (copy D uid targetmailbox) (\<lambda>_.
       (\<lambda>mb. if \<not> mailbox_eq mb targetmailbox \<and> ne_name targetmailbox (name mb) then
               bindE (call D (UidStore uid ''+FLAGS'' (CHR ''('' # CHR 0x5C # ''Deleted)'')))
                 (\<lambda>(code, data).
                    if code \<noteq> ''OK'' then
                      raise (Exn ImapNotOkError ''%s in move: %s'' [AStr code, AData data])
                    else ret ()) mb
             else (Inr (), mb)))"

definition discard :: "'env deps \<Rightarrow> int \<Rightarrow> (unit, 'env) action" where
  "discard D uid =
     (\<lambda>mb. case trash mb of
        None \<Rightarrow> add_imapflag D uid [CHR 0x5C # ''Deleted''] mb
      | Some t \<Rightarrow> move D uid t mb)"

definition remove_uid :: "'env deps \<Rightarrow> int \<Rightarrow> (unit, 'env) action" where
  "remove_uid D uid =
     bindE (search D (Some ''ALL'') None) (\<lambda>uids.
       if uid \<notin> set uids then raise (Exn KeyError ''No UID %s'' [AInt uid])
       else discard D uid)"

definition delitem :: "'env deps \<Rightarrow> int \<Rightarrow> (unit, 'env) action" where
  "delitem D uid = remove_uid D uid"

fun discard_all :: "'env deps \<Rightarrow> int list \<Rightarrow> (unit, 'env) action" where
  "discard_all D [] = ret ()"
| "discard_all D (uid # uids) = bindE (discard D uid) (\<lambda>_. discard_all D uids)"

definition clear :: "'env deps \<Rightarrow> (unit, 'env) action" where
  "clear D = bindE (get_all_uids D) (\<lambda>uids. bindE (discard_all D uids) (\<lambda>_. expunge D))"

subsection \<open>pop, popitem, add\<close>

definition pop :: "'env deps \<Rightarrow> int \<Rightarrow> view option \<Rightarrow> (view, 'env) action" where
  "pop D uid dflt =
     except
       (bindE (getitem D uid) (\<lambda>message.
        bindE (delitem D uid) (\<lambda>_.
        bindE (expunge D) (\<lambda>_. ret message))))
       (\<lambda>c. c = KeyError)
       (\<lambda>_. case dflt of
               Some d \<Rightarrow> ret d
             | None \<Rightarrow> raise (Exn KeyError ''No such UID'' []))"


text \<open>
  \<^verbatim>\<open>add\<close>, for a message that already is an \<^verbatim>\<open>ImapMessage\<close>; \<^verbatim>\<open>[-1]\<close> of an empty
  list is an \<^verbatim>\<open>IndexError\<close>.
\<close>

definition add :: "'env deps \<Rightarrow> view \<Rightarrow> (int, 'env) action" where
  "add D message =
     (\<lambda>mb.
        let flags = flagstring D message;
            date_time = internaldatestring D message;
            message_str = flatten D message
        in bindE (call D (Append (name mb) flags date_time message_str))
             (\<lambda>(code, data).
                if code \<noteq> ''OK'' then
                  raise (Exn ImapNotOkError ''%s in add: %s'' [AStr code, AData data])
                else bindE (get_all_uids D) (\<lambda>uids.
                       if uids = [] then raise (Exn IndexError ''list index out of range'' [])
                       else ret (last uids))) mb)"

definition update :: "(unit, 'env) action" where
  "update = raise (Exn NotSupportedError ''Updating items in IMAP not supported'' [])"

definition setitem :: "int \<Rightarrow> view \<Rightarrow> (unit, 'env) action" where
  "setitem uid message = raise (Exn NotSupportedError ''Setting items in IMAP not supported'' [])"

definition lock :: "(unit, 'env) action" where
  "lock = ret ()"

definition unlock :: "(unit, 'env) action" where
  "unlock = ret ()"

subsection \<open>Connection life cycle\<close>

text \<open>
  \<^verbatim>\<open>__init__\<close>, for a path that is a server and a string: the object is bound
  to the outside world \<open>e\<close>, to the server identity \<open>sid\<close> and to the folder
  name; the folder is selected, and created first if it is missing and
  \<^verbatim>\<open>create\<close> is set; then the cache and the trash are set to \<^verbatim>\<open>None\<close>.
\<close>

definition init :: "'env deps \<Rightarrow> 'env \<Rightarrow> nat \<Rightarrow> string \<Rightarrow> (view \<Rightarrow> view) option \<Rightarrow> bool
    \<Rightarrow> (exn + unit) \<times> 'env mailbox" where
  "init D e sid n fac create =
     bindE
       (except
          (bindE (call D (Select n)) (\<lambda>_. ret ()))
          (\<lambda>c. c = NoSuchMailboxError)
          (\<lambda>_. if create then
                  bindE (call D (Create n)) (\<lambda>_.
                  bindE (call D (Select n)) (\<lambda>_. ret ()))
                else raise (Exn NoSuchMailboxError ''mailbox %s does not exist.'' [AStr n])))
       (\<lambda>_. (\<lambda>mb. (Inr (), mb\<lparr>cached_uid := None, cached_text := None, trash := None\<rparr>)))
       \<lparr>env = e, sent = [], server_id = sid, name = n, trash = None,
        cached_uid = None, cached_text = None, factory = fac\<rparr>"

text \<open>
  \<^verbatim>\<open>reconnect\<close>: the inner handler of \<^verbatim>\<open>NoSuchMailboxError\<close> reads the name
  \<^verbatim>\<open>create\<close>, which is not bound in this method.  The public attribute
  \<^verbatim>\<open>self.server\<close> that the \<^verbatim>\<open>finally\<close> clause renews is not part of the model.
\<close>

definition reconnect :: "'env deps \<Rightarrow> (unit, 'env) action" where
  "reconnect D =
     bindE (call D Reconnect) (\<lambda>_.
     bindE (call D Login) (\<lambda>_.
       except
         (\<lambda>mb. bindE (call D (Select (name mb))) (\<lambda>_. ret ()) mb)
         (\<lambda>c. True)
         (\<lambda>_. bindE (call D Reconnect) (\<lambda>_.
               bindE (call D Login) (\<lambda>_.
                 except
                   (\<lambda>mb. bindE (call D (Select (name mb))) (\<lambda>_. ret ()) mb)
                   (\<lambda>c. c = NoSuchMailboxError)
                   (\<lambda>_. raise (Exn NameError ''global name create is not defined'' [])))))))"

definition switch :: "'env deps \<Rightarrow> string \<Rightarrow> bool \<Rightarrow> (unit, 'env) action" where
  "switch D new_name create =
     bindE (flush D) (\<lambda>_.
     bindE (\<lambda>mb. (Inr (), mb\<lparr>name := new_name\<rparr>)) (\<lambda>_.
     bindE
       (except
          (bindE (call D (Select new_name)) (\<lambda>_. ret ()))
          (\<lambda>c. c = NoSuchMailboxError)
          (\<lambda>_. if create then
                  bindE (call D (Create new_name)) (\<lambda>_.
                  bindE (call D (Select new_name)) (\<lambda>_. ret ()))
                else raise (Exn NoSuchMailboxError ''mailbox %s does not exist.'' [AStr new_name])))
       (\<lambda>_. (\<lambda>mb. (Inr (), mb\<lparr>cached_uid := None, cached_text := None\<rparr>)))))"

definition close :: "'env deps \<Rightarrow> (unit, 'env) action" where
  "close D =
     bindE (flush D) (\<lambda>_.
     bindE (call D Close) (\<lambda>_.
     bindE (call D Logout) (\<lambda>_. ret ())))"

section \<open>A reference session\<close>

text \<open>
  Modelled from the spec: the session port of section 6 (\<^verbatim>\<open>ImapServer.py\<close> is not
  among the sources) together with the IMAP server behind it, as far as the
  spec and the calls of the module describe them: folders of messages with
  stable ascending UIDs, flags per message, \<^verbatim>\<open>expunge\<close> as the removal of the
  messages flagged deleted, a server-side copy, an append.  A message flagged
  deleted stays in its folder, and in the answer to the search key \<^verbatim>\<open>ALL\<close>,
  until it is expunged (the glossary and section 8 of the spec; RFC 3501, to
  which the docstring of \<^verbatim>\<open>search\<close> refers); \<^verbatim>\<open>UNDELETED\<close> leaves it out.  A
  full fetch sets the seen flag.  The data of a reply has the shape \<^verbatim>\<open>imaplib\<close>
  gives it; a command the server answers with \<^verbatim>\<open>BAD\<close> raises, as in \<^verbatim>\<open>imaplib\<close>.
  It instantiates the parameter \<open>D\<close> of the operations where a statement is
  about what the server holds afterwards.
\<close>

record rmsg =
  m_uid :: int
  m_flags :: "string list"
  m_body :: string
  m_date :: string

record folder =
  msgs :: "rmsg list"
  uidnext :: int

record world =
  folders :: "(string \<times> folder) list"
  selected :: "string option"
  boxes :: "(target \<times> view list) list"

abbreviation DELETED :: string where
  "DELETED \<equiv> CHR 0x5C # ''Deleted''"

abbreviation SEEN :: string where
  "SEEN \<equiv> CHR 0x5C # ''Seen''"

definition digit_char :: "nat \<Rightarrow> char" where
  "digit_char d = char_of (48 + d)"

fun str_nat :: "nat \<Rightarrow> string" where
  "str_nat n = (if n < 10 then [digit_char n] else str_nat (n div 10) @ [digit_char (n mod 10)])"

declare str_nat.simps [simp del]

definition str_int :: "int \<Rightarrow> string" where
  "str_int i = (if i < 0 then CHR ''-'' # str_nat (nat (- i)) else str_nat (nat i))"

definition ok :: "resp_item list \<Rightarrow> exn + response" where
  "ok d = Inr (''OK'', d)"

definition bad :: "exn + response" where
  "bad = Inl (Exn OtherError ''command error: BAD'' [])"

text \<open>The flags of a parenthesised list such as \<^verbatim>\<open>(\Seen \Deleted)\<close>.\<close>

definition flag_list :: "string \<Rightarrow> string list" where
  "flag_list s = py_split (filter (\<lambda>c. c \<noteq> CHR ''('' \<and> c \<noteq> CHR '')'') s)"

text \<open>The search keys the reference server knows; any other key is a \<^verbatim>\<open>BAD\<close> command.\<close>

definition key_test :: "string \<Rightarrow> (rmsg \<Rightarrow> bool) option" where
  "key_test k =
     (if k = ''ALL'' then Some (\<lambda>m. True)
      else if k = ''UNDELETED'' then Some (\<lambda>m. DELETED \<notin> set (m_flags m))
      else if k = ''DELETED'' then Some (\<lambda>m. DELETED \<in> set (m_flags m))
      else if k = ''UNSEEN'' then Some (\<lambda>m. SEEN \<notin> set (m_flags m))
      else if k = ''SEEN'' then Some (\<lambda>m. SEEN \<in> set (m_flags m))
      else None)"

definition search_reply :: "string \<Rightarrow> rmsg list \<Rightarrow> exn + response" where
  "search_reply txt ms =
     (case those (map key_test (flag_list txt)) of
        None \<Rightarrow> bad
      | Some ps \<Rightarrow>
          if ps = [] then bad
          else ok [RStr (join_sp (map (\<lambda>m. str_int (m_uid m))
                   (filter (\<lambda>m. list_all (\<lambda>p. p m) ps) ms)))])"

definition seqno :: "rmsg list \<Rightarrow> int \<Rightarrow> string" where
  "seqno ms u = str_nat (Suc (length (takeWhile (\<lambda>m. m_uid m \<noteq> u) ms)))"

definition fetch_reply :: "rmsg list \<Rightarrow> int \<Rightarrow> string \<Rightarrow> exn + response" where
  "fetch_reply ms u item =
     (case find (\<lambda>m. m_uid m = u) ms of
        None \<Rightarrow> ok [RNone]
      | Some m \<Rightarrow>
          (let pre = seqno ms u @ '' (UID '' @ str_int u @ '' '' in
           if item = ''(RFC822)'' then
             ok [RPair (pre @ ''RFC822 {'' @ str_nat (length (m_body m)) @ ''}'') (m_body m),
                 RStr '')'']
           else if item = ''(FLAGS)'' then
             ok [RStr (pre @ ''FLAGS ('' @ join_sp (m_flags m) @ ''))'')]
           else if item = ''(INTERNALDATE)'' then
             ok [RStr (pre @ ''INTERNALDATE '' @ [CHR 0x22] @ m_date m @ [CHR 0x22] @ '')'')]
           else if item = ''(RFC822.SIZE)'' then
             ok [RStr (pre @ ''RFC822.SIZE '' @ str_nat (length (m_body m)) @ '')'')]
           else bad))"

definition on_uid :: "int \<Rightarrow> (rmsg \<Rightarrow> rmsg) \<Rightarrow> rmsg list \<Rightarrow> rmsg list" where
  "on_uid u f ms = map (\<lambda>m. if m_uid m = u then f m else m) ms"

definition add_flags :: "string list \<Rightarrow> rmsg \<Rightarrow> rmsg" where
  "add_flags fs m = m\<lparr>m_flags := m_flags m @ filter (\<lambda>f. f \<notin> set (m_flags m)) (remdups fs)\<rparr>"

definition del_flags :: "string list \<Rightarrow> rmsg \<Rightarrow> rmsg" where
  "del_flags fs m = m\<lparr>m_flags := filter (\<lambda>f. f \<notin> set fs) (m_flags m)\<rparr>"

definition put_flags :: "string list \<Rightarrow> rmsg \<Rightarrow> rmsg" where
  "put_flags fs m = m\<lparr>m_flags := remdups fs\<rparr>"

definition expunged :: "rmsg list \<Rightarrow> rmsg list" where
  "expunged ms = filter (\<lambda>m. DELETED \<notin> set (m_flags m)) ms"

definition put_folder :: "string \<Rightarrow> folder \<Rightarrow> world \<Rightarrow> world" where
  "put_folder n f w = w\<lparr>folders := AList.update n f (folders w)\<rparr>"

definition deliver :: "rmsg \<Rightarrow> folder \<Rightarrow> folder" where
  "deliver m f = f\<lparr>msgs := msgs f @ [m\<lparr>m_uid := uidnext f\<rparr>], uidnext := uidnext f + 1\<rparr>"

definition no_folder :: "exn + response" where
  "no_folder = Inr (''NO'', [RStr ''[TRYCREATE] Mailbox does not exist''])"

text \<open>A command on the selected folder; without one, \<^verbatim>\<open>imaplib\<close> raises its error.\<close>

definition in_selected :: "world \<Rightarrow> (string \<Rightarrow> folder \<Rightarrow> (exn + response) \<times> world)
    \<Rightarrow> (exn + response) \<times> world" where
  "in_selected w k =
     (case selected w of
        None \<Rightarrow> (Inl (Exn OtherError ''command illegal in state AUTH'' []), w)
      | Some n \<Rightarrow>
          (case map_of (folders w) n of
             None \<Rightarrow> (Inl (Exn OtherError ''command illegal in state AUTH'' []), w)
           | Some f \<Rightarrow> k n f))"

fun ref_respond :: "world \<Rightarrow> request \<Rightarrow> (exn + response) \<times> world" where
  "ref_respond w (UidSearch charset crit) =
     in_selected w (\<lambda>n f.
       (search_reply (case charset of None \<Rightarrow> crit | Some cs \<Rightarrow> cs @ '' '' @ crit) (msgs f), w))"
| "ref_respond w (UidFetch u item) =
     in_selected w (\<lambda>n f.
       (fetch_reply (msgs f) u item,
        if item = ''(RFC822)'' then put_folder n (f\<lparr>msgs := on_uid u (add_flags [SEEN]) (msgs f)\<rparr>) w
        else w))"
| "ref_respond w (UidStore u op fl) =
     in_selected w (\<lambda>n f.
       if op = ''+FLAGS'' then
         (fetch_reply (on_uid u (add_flags (flag_list fl)) (msgs f)) u ''(FLAGS)'',
          put_folder n (f\<lparr>msgs := on_uid u (add_flags (flag_list fl)) (msgs f)\<rparr>) w)
       else if op = ''-FLAGS'' then
         (fetch_reply (on_uid u (del_flags (flag_list fl)) (msgs f)) u ''(FLAGS)'',
          put_folder n (f\<lparr>msgs := on_uid u (del_flags (flag_list fl)) (msgs f)\<rparr>) w)
       else if op = ''FLAGS'' then
         (fetch_reply (on_uid u (put_flags (flag_list fl)) (msgs f)) u ''(FLAGS)'',
          put_folder n (f\<lparr>msgs := on_uid u (put_flags (flag_list fl)) (msgs f)\<rparr>) w)
       else (bad, w))"
| "ref_respond w (UidCopy u dest) =
     in_selected w (\<lambda>n f.
       case map_of (folders w) dest of
         None \<Rightarrow> (no_folder, w)
       | Some g \<Rightarrow>
           (case find (\<lambda>m. m_uid m = u) (msgs f) of
              None \<Rightarrow> (ok [RNone], w)
            | Some m \<Rightarrow> (ok [RNone], put_folder dest (deliver m g) w)))"
| "ref_respond w (Append dest fl date body) =
     (case map_of (folders w) dest of
        None \<Rightarrow> (no_folder, w)
      | Some g \<Rightarrow>
          (ok [RStr ''APPEND completed''],
           put_folder dest
             (deliver \<lparr>m_uid = 0, m_flags = remdups (flag_list fl), m_body = body, m_date = date\<rparr> g) w))"
| "ref_respond w Expunge =
     in_selected w (\<lambda>n f. (ok [RNone], put_folder n (f\<lparr>msgs := expunged (msgs f)\<rparr>) w))"
| "ref_respond w (Select n) =
     (case map_of (folders w) n of
        None \<Rightarrow> (Inl (Exn NoSuchMailboxError ''mailbox %s does not exist.'' [AStr n]), w)
      | Some f \<Rightarrow> (ok [RStr (str_nat (length (msgs f)))], w\<lparr>selected := Some n\<rparr>))"
| "ref_respond w (Create n) =
     (case map_of (folders w) n of
        None \<Rightarrow> (ok [RStr ''CREATE completed''], put_folder n \<lparr>msgs = [], uidnext = 1\<rparr> w)
      | Some f \<Rightarrow> (Inr (''NO'', [RStr ''Mailbox already exists'']), w))"
| "ref_respond w Reconnect = (ok [RNone], w\<lparr>selected := None\<rparr>)"
| "ref_respond w Login = (ok [RStr ''LOGIN completed''], w)"
| "ref_respond w Close =
     in_selected w (\<lambda>n f.
       (ok [RStr ''CLOSE completed''],
        (put_folder n (f\<lparr>msgs := expunged (msgs f)\<rparr>) w)\<lparr>selected := None\<rparr>))"
| "ref_respond w Logout = (Inr (''BYE'', [RStr ''Logging out'']), w\<lparr>selected := None\<rparr>)"
| "ref_respond w (MboxLock t) = (ok [], w)"
| "ref_respond w (MboxAdd t v) =
     (ok [], w\<lparr>boxes := AList.update t
        ((case map_of (boxes w) t of None \<Rightarrow> [] | Some vs \<Rightarrow> vs) @ [v]) (boxes w)\<rparr>)"
| "ref_respond w (MboxFlush t) = (ok [], w)"
| "ref_respond w (MboxUnlock t) = (ok [], w)"

text \<open>
  The library routines of the reference session: the flags of a \<^verbatim>\<open>FLAGS (...)\<close>
  item as \<^verbatim>\<open>imaplib.ParseFlags\<close> splits them, a stand-in for the date parser
  (the fields of the time tuple are not computed), and an \<^verbatim>\<open>ImapMessage\<close> that
  prints its flags in parentheses and flattens to the string it was built from.
\<close>

definition ref_ParseFlags :: "string \<Rightarrow> string list" where
  "ref_ParseFlags s =
     (let i = py_find s ''FLAGS ('' 0
      in if i < 0 then [] else py_split (takeWhile (\<lambda>c. c \<noteq> CHR '')'') (drop (nat i + 7) s)))"

definition ref_deps :: "world deps" where
  "ref_deps =
     \<lparr>respond = ref_respond,
      ParseFlags = ref_ParseFlags,
      Internaldate2tuple = (\<lambda>s. if py_find s ''INTERNALDATE'' 0 < 0 then None else Some []),
      flagstring = (\<lambda>v. ''('' @ join_sp (imapflags v) @ '')''),
      internaldatestring = (\<lambda>v. ''01-Jan-2008 00:00:00 +0000''),
      flatten = (\<lambda>v. case rfc822 v of None \<Rightarrow> [] | Some s \<Rightarrow> s)\<rparr>"

text \<open>
  A mailbox object as a successful \<^verbatim>\<open>__init__\<close> with the default factory leaves
  it, bound to a folder of a world, with the record of calls started afresh.
\<close>

definition init_mailbox :: "'env \<Rightarrow> string \<Rightarrow> 'env mailbox" where
  "init_mailbox e n =
     \<lparr>env = e, sent = [], server_id = 0, name = n, trash = None,
      cached_uid = None, cached_text = None, factory = None\<rparr>"

text \<open>
  The world of the scenario in section 8 of the spec: a folder with the
  undeleted UIDs 5, 9 and 12, selected, and an empty trash folder.
\<close>

definition msg5 :: rmsg where
  "msg5 = \<lparr>m_uid = 5, m_flags = [], m_body = ''Subject: five'', m_date = ''01-Jan-2008 00:00:00 +0000''\<rparr>"

definition msg9 :: rmsg where
  "msg9 = \<lparr>m_uid = 9, m_flags = [], m_body = ''Subject: nine'', m_date = ''02-Jan-2008 00:00:00 +0000''\<rparr>"

definition msg12 :: rmsg where
  "msg12 = \<lparr>m_uid = 12, m_flags = [], m_body = ''Subject: twelve'', m_date = ''03-Jan-2008 00:00:00 +0000''\<rparr>"

definition world0 :: world where
  "world0 =
     \<lparr>folders = [(''INBOX'', \<lparr>msgs = [msg5, msg9, msg12], uidnext = 13\<rparr>),
                 (''Trash'', \<lparr>msgs = [], uidnext = 1\<rparr>)],
      selected = Some ''INBOX'',
      boxes = []\<rparr>"

definition mailbox0 :: "world mailbox" where
  "mailbox0 = init_mailbox world0 ''INBOX''"

text \<open>The scenario mailbox after a raw read of UID 5: the cache holds UID 5.\<close>

definition mailbox5 :: "world mailbox" where
  "mailbox5 = snd (cache_message ref_deps 5 mailbox0)"

text \<open>
  A session that answers every call with the same reply, for the shapes of reply
  that the reference session never gives.
\<close>

definition canned_deps :: "(exn + response) \<Rightarrow> unit deps" where
  "canned_deps reply =
     \<lparr>respond = (\<lambda>e r. (reply, e)),
      ParseFlags = ref_ParseFlags,
      Internaldate2tuple = (\<lambda>s. None),
      flagstring = (\<lambda>v. ''()''),
      internaldatestring = (\<lambda>v. []),
      flatten = (\<lambda>v. [])\<rparr>"

definition view0 :: view where
  "view0 = \<lparr>rfc822 = Some ''Subject: none'', imapflags = [], internaldate = None, msgsize = 13\<rparr>"

section \<open>Vocabulary of the properties\<close>

text \<open>
  \<open>frame g m\<close>: the statement \<open>m\<close> leaves the part \<open>g\<close> of the mailbox object as
  it is, whatever its outcome.  \<open>the_cache\<close> is the message cache and
  \<open>the_binding\<close> the folder the object is bound to.  \<open>keeps_when u m\<close>: \<open>m\<close>
  leaves the cache as it is when the cache holds \<open>u\<close>.
\<close>

definition frame :: "('env mailbox \<Rightarrow> 'x) \<Rightarrow> ('a, 'env) action \<Rightarrow> bool" where
  "frame g m = (\<forall>mb. g (snd (m mb)) = g mb)"

definition env_indep :: "('env mailbox \<Rightarrow> 'x) \<Rightarrow> bool" where
  "env_indep g = (\<forall>mb e s. g (mb\<lparr>env := e, sent := s\<rparr>) = g mb)"

definition cache_indep :: "('env mailbox \<Rightarrow> 'x) \<Rightarrow> bool" where
  "cache_indep g = (\<forall>mb u t. g (mb\<lparr>cached_uid := u, cached_text := t\<rparr>) = g mb)"

definition the_cache :: "'env mailbox \<Rightarrow> int option \<times> string option" where
  "the_cache mb = (cached_uid mb, cached_text mb)"

definition the_binding :: "'env mailbox \<Rightarrow> string \<times> nat \<times> target option" where
  "the_binding mb = (name mb, server_id mb, trash mb)"

definition keeps_when :: "int \<Rightarrow> ('a, 'env) action \<Rightarrow> bool" where
  "keeps_when u m =
     (\<forall>mb. cached_uid mb = Some u \<longrightarrow> the_cache (snd (m mb)) = the_cache mb)"

text \<open>
  \<open>cache_served D u mb mb'\<close>: in \<open>mb'\<close> the cache still holds \<open>u\<close> with the text
  it had in \<open>mb\<close>, and a raw read of \<open>u\<close> returns that text and leaves \<open>mb'\<close>
  as it is (no request is recorded).
\<close>

definition cache_served :: "'env deps \<Rightarrow> int \<Rightarrow> 'env mailbox \<Rightarrow> 'env mailbox \<Rightarrow> bool" where
  "cache_served D u mb mb' =
     (cached_uid mb' = Some u \<and> cached_text mb' = cached_text mb
      \<and> cache_message D u mb' = (Inr (cached_text mb), mb')
      \<and> get_string D u mb' = (Inr (cached_text mb), mb')
      \<and> get_file D u mb' = (Inr (cached_text mb), mb'))"

text \<open>
  The target of a \<^verbatim>\<open>move\<close> is the source folder: the folder's own name, or a
  handle on the same server with the same name.
\<close>

definition is_source :: "'env mailbox \<Rightarrow> target \<Rightarrow> bool" where
  "is_source mb t = (t = TStr (name mb) \<or> t = TImap (server_id mb) (name mb))"

text \<open>
  \<open>on_ref D\<close>: the session of \<open>D\<close> is the reference session (the library
  routines of \<open>D\<close> stay arbitrary).  \<open>bound_to mb f\<close>: the folder the mailbox
  object is named after is the selected folder of the session and holds \<open>f\<close>.
  \<open>all_uids D mb\<close>: what \<^verbatim>\<open>search("ALL")\<close> returns in the state \<open>mb\<close>.
\<close>

definition on_ref :: "world deps \<Rightarrow> bool" where
  "on_ref D = (respond D = ref_respond)"

definition bound_to :: "world mailbox \<Rightarrow> folder \<Rightarrow> bool" where
  "bound_to mb f =
     (selected (env mb) = Some (name mb) \<and> map_of (folders (env mb)) (name mb) = Some f)"

definition all_uids :: "world deps \<Rightarrow> world mailbox \<Rightarrow> exn + int list" where
  "all_uids D mb = fst (search D (Some ''ALL'') None mb)"

text \<open>The scenario mailbox with the folder \<^verbatim>\<open>Trash\<close> configured as its trash.\<close>

definition mailbox0_trash :: "world mailbox" where
  "mailbox0_trash = mailbox0\<lparr>trash := Some (TStr ''Trash'')\<rparr>"

text \<open>
  \<open>step_to mb mb'\<close>: from \<open>mb\<close> to \<open>mb'\<close> the object keeps its name, server,
  trash and factory, the session keeps its selected folder, and every folder
  other than the one the object is named after keeps its content.
\<close>

definition step_to :: "world mailbox \<Rightarrow> world mailbox \<Rightarrow> bool" where
  "step_to mb mb' =
     (name mb' = name mb \<and> server_id mb' = server_id mb \<and> trash mb' = trash mb
      \<and> factory mb' = factory mb \<and> selected (env mb') = selected (env mb)
      \<and> (\<forall>tn. tn \<noteq> name mb \<longrightarrow>
            map_of (folders (env mb')) tn = map_of (folders (env mb)) tn))"




text \<open>A message that carries the deleted flag when it is appended.\<close>

definition view_deleted :: view where
  "view_deleted = view0\<lparr>imapflags := [DELETED]\<rparr>"

section \<open>Properties\<close>

subsection \<open>Printing and reading decimal numbers, joining and splitting\<close>

lemma of_char_digit_char: "d < 10 \<Longrightarrow> (of_char (digit_char d) :: nat) = 48 + d"
  by (simp add: digit_char_def)

lemma isdigit_digit_char: "d < 10 \<Longrightarrow> isdigit (digit_char d)"
  by (simp add: isdigit_def of_char_digit_char)

lemma isspace_of_char: "isspace c \<Longrightarrow> (of_char c :: nat) \<in> {32, 9, 10, 11, 12, 13}"
  by (auto simp: isspace_def)

lemma isdigit_not_isspace: "isdigit c \<Longrightarrow> \<not> isspace c"
  by (auto simp: isdigit_def dest!: isspace_of_char)

lemma str_nat_digits: "\<forall>c \<in> set (str_nat n). isdigit c"
proof (induction n rule: str_nat.induct)
  case (1 n)
  show ?case
  proof (cases "n < 10")
    case True
    then show ?thesis by (simp add: str_nat.simps [of n] isdigit_digit_char)
  next
    case False
    then show ?thesis
      using 1 by (simp add: str_nat.simps [of n] isdigit_digit_char)
  qed
qed

lemma str_nat_nonempty: "str_nat n \<noteq> []"
  by (simp add: str_nat.simps [of n])

lemma digits_val_append: "digits_val a (xs @ ys) = digits_val (digits_val a xs) ys"
  by (induction xs arbitrary: a) simp_all

lemma digits_val_str_nat: "digits_val 0 (str_nat n) = n"
proof (induction n rule: str_nat.induct)
  case (1 n)
  show ?case
  proof (cases "n < 10")
    case True
    then show ?thesis by (simp add: str_nat.simps [of n] of_char_digit_char)
  next
    case False
    then show ?thesis
      using 1 by (simp add: str_nat.simps [of n] digits_val_append of_char_digit_char)
  qed
qed

lemma takeWhile_all: "\<forall>c \<in> set xs. P c \<Longrightarrow> takeWhile P xs = xs"
  by (induction xs) simp_all

lemma dropWhile_all: "\<forall>c \<in> set xs. P c \<Longrightarrow> dropWhile P xs = []"
  by (induction xs) simp_all

lemma dropWhile_none: "xs \<noteq> [] \<Longrightarrow> \<not> P (hd xs) \<Longrightarrow> dropWhile P xs = xs"
  by (cases xs) simp_all

lemma py_int_str_nat: "py_int (str_nat n) = Some (int n)"
proof -
  have d: "\<forall>c \<in> set (str_nat n). isdigit c" by (rule str_nat_digits)
  have ne: "str_nat n \<noteq> []" by (rule str_nat_nonempty)
  then have h: "isdigit (hd (str_nat n))" using d by (cases "str_nat n") simp_all
  have nm: "hd (str_nat n) \<noteq> CHR ''-''" "hd (str_nat n) \<noteq> CHR ''+''"
    using h by (auto simp: isdigit_def)
  have sp: "dropWhile isspace (str_nat n) = str_nat n"
    using ne h by (intro dropWhile_none) (auto dest: isdigit_not_isspace)
  show ?thesis
    using nm ne
    by (simp add: py_int_def Let_def sp takeWhile_all [OF d] dropWhile_all [OF d] digits_val_str_nat)
qed

lemma py_int_str_int: "py_int (str_int i) = Some i"
proof (cases "i < 0")
  case False
  then show ?thesis by (simp add: str_int_def py_int_str_nat)
next
  case True
  let ?s = "str_nat (nat (- i))"
  have d: "\<forall>c \<in> set ?s. isdigit c" by (rule str_nat_digits)
  have ne: "?s \<noteq> []" by (rule str_nat_nonempty)
  then have h: "isdigit (hd ?s)" using d by (cases ?s) simp_all
  have sp: "dropWhile isspace ?s = ?s"
    using ne h by (intro dropWhile_none) (auto dest: isdigit_not_isspace)
  have ms: "\<not> isspace CHR ''-''" by (simp add: isspace_def)
  show ?thesis
    using True ne
    by (simp add: str_int_def py_int_def Let_def ms sp takeWhile_all [OF d] dropWhile_all [OF d]
        digits_val_str_nat)
qed

lemma str_nat_nospace: "c \<in> set (str_nat n) \<Longrightarrow> \<not> isspace c"
  using str_nat_digits [of n] isdigit_not_isspace by blast

lemma str_int_nospace: "\<forall>c \<in> set (str_int i). \<not> isspace c"
proof -
  have "\<not> isspace CHR ''-''" by (simp add: isspace_def)
  then show ?thesis by (auto simp: str_int_def dest: str_nat_nospace)
qed

lemma str_int_nonempty: "str_int i \<noteq> []"
  by (simp add: str_int_def str_nat_nonempty)

lemma split_acc_word:
  "\<forall>c \<in> set w. \<not> isspace c \<Longrightarrow> split_acc acc (w @ rest) = split_acc (acc @ w) rest"
  by (induction w arbitrary: acc) simp_all

lemma isspace_space: "isspace CHR '' ''"
  by (simp add: isspace_def)

lemma py_split_join_sp:
  assumes "\<forall>w \<in> set ws. w \<noteq> [] \<and> (\<forall>c \<in> set w. \<not> isspace c)"
  shows "py_split (join_sp ws) = ws"
  using assms unfolding py_split_def
proof (induction ws rule: join_sp.induct)
  case 1
  show ?case by simp
next
  case (2 w)
  then show ?case using split_acc_word [of w "[]" "[]"] by simp
next
  case (3 w v vs)
  then have "split_acc [] (w @ CHR '' '' # join_sp (v # vs)) = w # split_acc [] (join_sp (v # vs))"
    using split_acc_word [of w "[]" "CHR '' '' # join_sp (v # vs)"] by (simp add: isspace_space)
  then show ?case using 3 by simp
qed

lemma parse_uid_list:
  "those (map py_int (py_split (join_sp (map str_int us)))) = Some us"
proof -
  have "py_split (join_sp (map str_int us)) = map str_int us"
    by (rule py_split_join_sp) (auto simp: str_int_nonempty str_int_nospace)
  moreover have "those (map py_int (map str_int us)) = Some us"
    by (induction us) (simp_all add: py_int_str_int)
  ultimately show ?thesis by simp
qed

subsection \<open>Calls leave the cache alone and are recorded\<close>

lemma call_sent: "sent (snd (call D r mb)) = sent mb @ [r]"
  by (simp add: call_def split: prod.splits)

lemma call_cache:
  "cached_uid (snd (call D r mb)) = cached_uid mb"
  "cached_text (snd (call D r mb)) = cached_text mb"
  by (simp_all add: call_def split: prod.splits)

subsection \<open>The single-slot cache\<close>

lemma cache_message_hit:
  "cached_uid mb = Some u \<Longrightarrow> cache_message D u mb = (Inr (cached_text mb), mb)"
  by (simp add: cache_message_def)

lemma cache_message_miss_sent:
  "cached_uid mb \<noteq> Some u \<Longrightarrow>
     sent (snd (cache_message D u mb)) = sent mb @ [UidFetch u ''(RFC822)'']"
  by (auto simp: cache_message_def bindE_def call_def raise_def
      split: prod.splits sum.splits list.splits resp_item.splits)

lemma cache_message_miss_ok:
  assumes "cached_uid mb \<noteq> Some u" and "cache_message D u mb = (Inr t, mb1)"
  shows "(\<exists>bytes. t = Some bytes) \<and> cached_uid mb1 = Some u \<and> cached_text mb1 = t"
  using assms
  by (auto simp: cache_message_def bindE_def call_def raise_def
      split: prod.splits sum.splits list.splits resp_item.splits if_splits)

lemma cache_message_fail:
  assumes "cache_message D u mb = (Inl e, mb1)"
  shows "cached_uid mb1 = cached_uid mb \<and> cached_text mb1 = cached_text mb"
  using assms
  by (auto simp: cache_message_def bindE_def call_def raise_def
      split: prod.splits sum.splits list.splits resp_item.splits if_splits)

text \<open>
  Claim C1.  From a state in which \<open>u\<close> is not cached, a raw fetch of \<open>u\<close> that
  returns its bytes has issued exactly one request, \<^verbatim>\<open>uid('fetch', u, "(RFC822)")\<close>,
  and has stored \<open>(u, bytes)\<close>; a second fetch of \<open>u\<close> returns the same bytes and
  leaves the whole state, the record of requests included, as it is.  A fetch of
  any \<open>v \<noteq> u\<close> then issues one new request, and when it returns bytes the cache
  holds \<open>(v, bytes)\<close> in place of the entry for \<open>u\<close>; a fetch that raises leaves the
  entry for \<open>u\<close>.  The cache is the one pair of fields \<open>cached_uid\<close>, \<open>cached_text\<close>.
\<close>

theorem cache_message_single_slot:
  assumes miss: "cached_uid mb \<noteq> Some u"
    and first: "cache_message D u mb = (Inr t, mb1)"
  shows "(\<exists>bytes. t = Some bytes)
    \<and> sent mb1 = sent mb @ [UidFetch u ''(RFC822)'']
    \<and> cached_uid mb1 = Some u \<and> cached_text mb1 = t
    \<and> cache_message D u mb1 = (Inr t, mb1)
    \<and> (\<forall>v. v \<noteq> u \<longrightarrow>
          sent (snd (cache_message D v mb1)) = sent mb1 @ [UidFetch v ''(RFC822)''])
    \<and> (\<forall>v t2 mb2. v \<noteq> u \<longrightarrow> cache_message D v mb1 = (Inr t2, mb2) \<longrightarrow>
          (\<exists>bytes. t2 = Some bytes) \<and> cached_uid mb2 = Some v \<and> cached_text mb2 = t2)
    \<and> (\<forall>v e mb2. cache_message D v mb1 = (Inl e, mb2) \<longrightarrow>
          cached_uid mb2 = Some u \<and> cached_text mb2 = t)"
proof -
  have a: "(\<exists>bytes. t = Some bytes) \<and> cached_uid mb1 = Some u \<and> cached_text mb1 = t"
    using cache_message_miss_ok [OF miss first] .
  have b: "sent mb1 = sent mb @ [UidFetch u ''(RFC822)'']"
    using cache_message_miss_sent [OF miss, of D] first by simp
  have c: "cache_message D u mb1 = (Inr t, mb1)"
    using cache_message_hit [of mb1 u D] a by simp
  have d: "sent (snd (cache_message D v mb1)) = sent mb1 @ [UidFetch v ''(RFC822)'']"
    if "v \<noteq> u" for v
    using that a by (intro cache_message_miss_sent) simp
  have e: "(\<exists>bytes. t2 = Some bytes) \<and> cached_uid mb2 = Some v \<and> cached_text mb2 = t2"
    if "v \<noteq> u" "cache_message D v mb1 = (Inr t2, mb2)" for v t2 mb2
    using that a by (intro cache_message_miss_ok [of mb1 v D t2 mb2]) simp_all
  have f: "cached_uid mb2 = Some u \<and> cached_text mb2 = t"
    if "cache_message D v mb1 = (Inl e, mb2)" for v e mb2
    using cache_message_fail [OF that] a by simp
  from a b c d e f show ?thesis by blast
qed

theorem cache_message_single_slot_witness:
  "cached_uid mailbox0 \<noteq> Some 5
   \<and> fst (cache_message ref_deps 5 mailbox0) = Inr (Some ''Subject: five'')
   \<and> sent (snd (cache_message ref_deps 5 mailbox0)) = [UidFetch 5 ''(RFC822)'']
   \<and> cached_uid (snd (cache_message ref_deps 5 mailbox0)) = Some 5
   \<and> cache_message ref_deps 5 (snd (cache_message ref_deps 5 mailbox0))
       = (Inr (Some ''Subject: five''), snd (cache_message ref_deps 5 mailbox0))
   \<and> sent (snd (cache_message ref_deps 9 (snd (cache_message ref_deps 5 mailbox0))))
       = [UidFetch 5 ''(RFC822)'', UidFetch 9 ''(RFC822)'']"
proof -
  have h1: "cached_uid mailbox0 \<noteq> Some 5" by code_simp
  have f: "fst (cache_message ref_deps 5 mailbox0) = Inr (Some ''Subject: five'')" by code_simp
  have h2: "cache_message ref_deps 5 mailbox0
      = (Inr (Some ''Subject: five''), snd (cache_message ref_deps 5 mailbox0))"
    using f by (simp add: prod_eq_iff)
  have s0: "sent mailbox0 = []" by code_simp
  have n: "(9::int) \<noteq> 5" by simp
  from cache_message_single_slot [OF h1 h2] h1 f s0 n show ?thesis by simp
qed

subsection \<open>What a statement leaves as it is\<close>

lemma env_indep_the_cache: "env_indep the_cache"
  by (simp add: env_indep_def the_cache_def)

lemma env_indep_the_binding: "env_indep the_binding"
  by (simp add: env_indep_def the_binding_def)

lemma cache_indep_the_binding: "cache_indep the_binding"
  by (simp add: cache_indep_def the_binding_def)

lemma frameD: "frame g m \<Longrightarrow> g (snd (m mb)) = g mb"
  by (simp add: frame_def)

lemma frame_cacheD:
  "frame the_cache m \<Longrightarrow>
     cached_uid (snd (m mb)) = cached_uid mb \<and> cached_text (snd (m mb)) = cached_text mb"
  by (simp add: frame_def the_cache_def)

lemma frame_call: "env_indep g \<Longrightarrow> frame g (call D r)"
  by (simp add: frame_def env_indep_def call_def split: prod.splits)

lemma frame_ret: "frame g (ret a)"
  by (simp add: frame_def ret_def)

lemma frame_raise: "frame g (raise e)"
  by (simp add: frame_def raise_def)

lemma frame_bindE:
  fixes m :: "('a, 'env) action"
  assumes "frame g m" and "\<And>a. frame g (f a)"
  shows "frame g (bindE m f)"
  unfolding frame_def
proof
  fix mb :: "'env mailbox"
  show "g (snd (bindE m f mb)) = g mb"
    using frameD [OF assms(1), of mb] frameD [OF assms(2)]
    by (cases "m mb"; cases "fst (m mb)") (auto simp: bindE_def)
qed

lemma frame_except:
  fixes m :: "('a, 'env) action"
  assumes "frame g m" and "\<And>e. frame g (h e)"
  shows "frame g (except m c h)"
  unfolding frame_def
proof
  fix mb :: "'env mailbox"
  show "g (snd (except m c h mb)) = g mb"
    using frameD [OF assms(1), of mb] frameD [OF assms(2)]
    by (cases "m mb"; cases "fst (m mb)") (auto simp: except_def)
qed

lemma frame_dep:
  assumes "\<And>x. frame g (f x)"
  shows "frame g (\<lambda>mb. f mb mb)"
  using assms by (simp add: frame_def)

lemma frame_search: "env_indep g \<Longrightarrow> frame g (search D crit cs)"
  unfolding search_def
  by (intro frame_bindE frame_call)
     (auto simp: frame_raise frame_ret Let_def split: prod.splits list.splits resp_item.splits option.splits)

lemma frame_expunge: "env_indep g \<Longrightarrow> frame g (expunge D)"
  unfolding expunge_def by (intro frame_bindE frame_call frame_ret)

lemma frame_add_imapflag: "env_indep g \<Longrightarrow> frame g (add_imapflag D uid flags)"
proof (induction flags)
  case Nil
  show ?case by (simp add: frame_ret)
next
  case (Cons f fs)
  then show ?case
    by simp (intro frame_bindE frame_call, auto simp: frame_raise split: prod.splits)
qed

lemma frame_remove_imapflag: "env_indep g \<Longrightarrow> frame g (remove_imapflag D uid flags)"
proof (induction flags)
  case Nil
  show ?case by (simp add: frame_ret)
next
  case (Cons f fs)
  then show ?case
    by simp (intro frame_bindE frame_call, auto simp: frame_raise split: prod.splits)
qed

lemma frame_set_imapflags: "env_indep g \<Longrightarrow> frame g (set_imapflags D uid fl)"
  unfolding set_imapflags_def Let_def
  by (intro frame_bindE frame_call) (auto simp: frame_raise frame_ret split: prod.splits)

lemma frame_get_imapflags:
  assumes "env_indep g"
  shows "frame g (get_imapflags D uid)"
proof -
  have "frame g (except (case data of [] \<Rightarrow> raise e1
             | flagresult # x \<Rightarrow>
                 if code \<noteq> ''OK'' then raise e2
                 else (case flagresult of RStr s \<Rightarrow> ret (ParseFlags D s) | _ \<Rightarrow> raise e3))
            c (\<lambda>_. raise e4))" for data :: "resp_item list" and e1 e2 e3 e4 code c
    by (intro frame_except) (auto simp: frame_raise frame_ret split: list.splits resp_item.splits)
  note k = frameD [OF this]
  have c: "g mb' = g mb"
    if "call D r mb = (a, mb')" for r a and mb mb' :: "'a mailbox"
    using frameD [OF frame_call [OF assms], of D r mb] that by simp
  show ?thesis
    unfolding frame_def get_imapflags_def
    by (auto simp: k dest: c split: prod.splits sum.splits)
qed

lemma frame_get_internaldate: "env_indep g \<Longrightarrow> frame g (get_internaldate D uid)"
  unfolding get_internaldate_def
  by (intro frame_except frame_bindE frame_call)
     (auto simp: frame_raise frame_ret split: prod.splits list.splits resp_item.splits)

lemma frame_get_size: "env_indep g \<Longrightarrow> frame g (get_size D uid)"
  unfolding get_size_def
  by (intro frame_except frame_bindE frame_call)
     (auto simp: frame_raise frame_ret Let_def split: prod.splits list.splits resp_item.splits option.splits)

lemma frame_cache_message:
  assumes "env_indep g" and "cache_indep g"
  shows "frame g (cache_message D u)"
proof -
  have c: "g (mb\<lparr>env := e, sent := s, cached_uid := a, cached_text := b\<rparr>) = g mb" for mb e s a b
    using assms by (simp add: env_indep_def cache_indep_def)
  show ?thesis
    unfolding frame_def cache_message_def
    using assms(1)
    by (auto simp: bindE_def call_def raise_def env_indep_def c
        split: prod.splits sum.splits list.splits resp_item.splits)
qed

lemma frame_get_message:
  assumes "env_indep g" and "cache_indep g"
  shows "frame g (get_message D u)"
  unfolding get_message_def
  apply (intro frame_bindE frame_cache_message frame_get_imapflags frame_get_internaldate
      frame_get_size assms)
  apply (simp add: frame_def Let_def split: option.splits)
  done

lemma frame_copy:
  assumes "env_indep g" and "cache_indep g"
  shows "frame g (copy D u t)"
proof -
  have f: "frame g (bindE (call D (MboxLock t')) (\<lambda>_.
                  bindE (getitem D u) (\<lambda>message.
                  bindE (call D (MboxAdd t' message)) (\<lambda>_.
                  bindE (call D (MboxFlush t')) (\<lambda>_.
                  bindE (call D (MboxUnlock t')) (\<lambda>_. ret ()))))))" for t'
    unfolding getitem_def
    by (intro frame_bindE frame_get_message frame_call frame_ret assms)
  have s: "frame g (bindE (call D (UidCopy u n))
                    (\<lambda>(code, data).
                       if code \<noteq> ''OK'' then
                         raise (Exn ImapNotOkError ''%s in copy: %s'' [AStr code, AData data])
                       else ret ()))" for n
    by (intro frame_bindE frame_call assms) (auto simp: frame_raise frame_ret)
  show ?thesis
    unfolding frame_def copy_def Let_def
    by (auto split: target.splits simp: frameD [OF f] frameD [OF s])
qed

lemma frame_store_deleted:
  "env_indep g \<Longrightarrow>
   frame g (bindE (call D (UidStore u ''+FLAGS'' (CHR ''('' # CHR 0x5C # ''Deleted)'')))
                 (\<lambda>(code, data).
                    if code \<noteq> ''OK'' then
                      raise (Exn ImapNotOkError ''%s in move: %s'' [AStr code, AData data])
                    else ret ()))"
  by (intro frame_bindE frame_call) (auto simp: frame_raise frame_ret)

lemma frame_reconnect:
  assumes "env_indep g"
  shows "frame g (reconnect D)"
proof -
  have sel: "frame g (\<lambda>mb. bindE (call D (Select (name mb))) (\<lambda>_. ret ()) mb)"
    by (rule frame_dep [where f = "\<lambda>x. bindE (call D (Select (name x))) (\<lambda>_. ret ())"])
       (intro frame_bindE frame_call frame_ret assms)
  show ?thesis
    unfolding reconnect_def
    by (intro frame_bindE frame_call frame_except sel frame_raise assms)
qed

lemma keeps_whenD:
  "keeps_when u m \<Longrightarrow> cached_uid mb = Some u \<Longrightarrow>
     cached_uid (snd (m mb)) = Some u \<and> cached_text (snd (m mb)) = cached_text mb"
  by (simp add: keeps_when_def the_cache_def)

lemma frame_keeps_when: "frame the_cache m \<Longrightarrow> keeps_when u m"
  by (simp add: frame_def keeps_when_def)

lemma keeps_when_bindE:
  fixes m :: "('a, 'env) action"
  assumes "keeps_when u m" and "\<And>a. keeps_when u (f a)"
  shows "keeps_when u (bindE m f)"
  unfolding keeps_when_def
proof (intro allI impI)
  fix mb :: "'env mailbox"
  assume c: "cached_uid mb = Some u"
  show "the_cache (snd (bindE m f mb)) = the_cache mb"
    using keeps_whenD [OF assms(1) c] keeps_whenD [OF assms(2)] c
    by (cases "m mb"; cases "fst (m mb)") (auto simp: bindE_def the_cache_def)
qed

lemma keeps_when_cache_message: "keeps_when u (cache_message D u)"
  by (simp add: keeps_when_def cache_message_def)

lemma keeps_when_get_message: "keeps_when u (get_message D u)"
  unfolding get_message_def
  apply (intro keeps_when_bindE keeps_when_cache_message)
     apply (rule frame_keeps_when [OF frame_get_imapflags [OF env_indep_the_cache]])
    apply (rule frame_keeps_when [OF frame_get_internaldate [OF env_indep_the_cache]])
   apply (rule frame_keeps_when [OF frame_get_size [OF env_indep_the_cache]])
  apply (simp add: keeps_when_def Let_def split: option.splits)
  done

lemma keeps_when_copy: "keeps_when u (copy D u t)"
proof -
  note fc = frame_keeps_when [OF frame_call [OF env_indep_the_cache]]
  have f: "keeps_when u (bindE (call D (MboxLock t')) (\<lambda>_.
                  bindE (getitem D u) (\<lambda>message.
                  bindE (call D (MboxAdd t' message)) (\<lambda>_.
                  bindE (call D (MboxFlush t')) (\<lambda>_.
                  bindE (call D (MboxUnlock t')) (\<lambda>_. ret ()))))))" for t'
    unfolding getitem_def
    by (intro keeps_when_bindE keeps_when_get_message fc frame_keeps_when [OF frame_ret])
  have s: "keeps_when u (bindE (call D (UidCopy u n))
                    (\<lambda>(code, data).
                       if code \<noteq> ''OK'' then
                         raise (Exn ImapNotOkError ''%s in copy: %s'' [AStr code, AData data])
                       else ret ()))" for n
    by (intro frame_keeps_when frame_bindE frame_call env_indep_the_cache)
       (auto simp: frame_raise frame_ret)
  show ?thesis
    unfolding keeps_when_def copy_def Let_def
    using keeps_whenD [OF f] keeps_whenD [OF s]
    by (auto split: target.splits simp: the_cache_def)
qed

lemma keeps_when_move: "keeps_when u (move D u t)"
  unfolding move_def
  apply (intro keeps_when_bindE keeps_when_copy)
  apply (simp add: keeps_when_def frameD [OF frame_store_deleted [OF env_indep_the_cache]])
  done

lemma keeps_when_discard: "keeps_when u (discard D u)"
  unfolding keeps_when_def discard_def
  by (auto split: option.splits simp del: add_imapflag.simps
      simp: keeps_whenD [OF keeps_when_move] the_cache_def
            frame_cacheD [OF frame_add_imapflag [OF env_indep_the_cache]])

lemma keeps_when_remove_uid: "keeps_when u (remove_uid D u)"
  unfolding remove_uid_def
  by (intro keeps_when_bindE frame_keeps_when [OF frame_search [OF env_indep_the_cache]])
     (auto simp: keeps_when_discard frame_keeps_when [OF frame_raise])

lemma keeps_when_served:
  assumes "keeps_when u m" and "cached_uid mb = Some u"
  shows "cache_served D u mb (snd (m mb))"
proof -
  from keeps_whenD [OF assms]
  have k: "cached_uid (snd (m mb)) = Some u" "cached_text (snd (m mb)) = cached_text mb"
    by simp_all
  from cache_message_hit [OF k(1), of D] k show ?thesis
    by (simp add: cache_served_def get_string_def get_file_def)
qed

subsection \<open>Flag and deletion operations and the cache\<close>

text \<open>
  Claim C9.  When the cache holds \<open>u\<close>, then after \<^verbatim>\<open>add_imapflag\<close>,
  \<^verbatim>\<open>remove_imapflag\<close> or \<^verbatim>\<open>set_imapflags\<close> on any UID, and after \<^verbatim>\<open>discard\<close>,
  \<^verbatim>\<open>remove\<close> or \<^verbatim>\<open>__delitem__\<close> on \<open>u\<close>, whether the operation returned or raised,
  the cache holds \<open>u\<close> with the same text, and a raw read of \<open>u\<close>
  (\<^verbatim>\<open>_cache_message\<close>, \<^verbatim>\<open>get_string\<close>, \<^verbatim>\<open>get_file\<close>) returns that text and issues
  no request.
\<close>

theorem flag_and_delete_keep_cache:
  assumes "cached_uid mb = Some u"
  shows "cache_served D u mb (snd (add_imapflag D v fs mb))
    \<and> cache_served D u mb (snd (remove_imapflag D v fs mb))
    \<and> cache_served D u mb (snd (set_imapflags D v fl mb))
    \<and> cache_served D u mb (snd (discard D u mb))
    \<and> cache_served D u mb (snd (remove_uid D u mb))
    \<and> cache_served D u mb (snd (delitem D u mb))"
proof -
  note f = frame_keeps_when [OF frame_add_imapflag [OF env_indep_the_cache]]
    frame_keeps_when [OF frame_remove_imapflag [OF env_indep_the_cache]]
    frame_keeps_when [OF frame_set_imapflags [OF env_indep_the_cache]]
  show ?thesis
    unfolding delitem_def
    by (intro conjI keeps_when_served [OF _ assms] f keeps_when_discard keeps_when_remove_uid)
qed

theorem flag_and_delete_keep_cache_witness:
  "cached_uid mailbox5 = Some 5 \<and> cached_text mailbox5 = Some ''Subject: five''
   \<and> cache_served ref_deps 5 mailbox5 (snd (add_imapflag ref_deps 5 [''Flagged''] mailbox5))
   \<and> cache_served ref_deps 5 mailbox5 (snd (remove_imapflag ref_deps 9 [''Flagged''] mailbox5))
   \<and> cache_served ref_deps 5 mailbox5 (snd (set_imapflags ref_deps 5 (OneFlag ''Flagged'') mailbox5))
   \<and> cache_served ref_deps 5 mailbox5 (snd (discard ref_deps 5 mailbox5))
   \<and> cache_served ref_deps 5 mailbox5 (snd (remove_uid ref_deps 5 mailbox5))
   \<and> cache_served ref_deps 5 mailbox5 (snd (delitem ref_deps 5 mailbox5))
   \<and> get_string ref_deps 5 (snd (discard ref_deps 5 mailbox5))
       = (Inr (Some ''Subject: five''), snd (discard ref_deps 5 mailbox5))
   \<and> fst (discard ref_deps 5 mailbox5) = Inr ()"
proof -
  have h: "cached_uid mailbox5 = Some 5" by code_simp
  have t: "cached_text mailbox5 = Some ''Subject: five''" by code_simp
  have d: "fst (discard ref_deps 5 mailbox5) = Inr ()" by code_simp
  note w = flag_and_delete_keep_cache [OF h, of ref_deps]
  from w [of 5 "[''Flagged'']" "OneFlag ''Flagged''"] w [of 9 "[''Flagged'']" "OneFlag ''Flagged''"] h t d
  show ?thesis by (simp add: cache_served_def)
qed

subsection \<open>Moving a message to its own folder\<close>

lemma is_source_iff: "is_source mb t \<longleftrightarrow> \<not> (\<not> mailbox_eq mb t \<and> ne_name t (name mb))"
  by (cases t) (auto simp: is_source_def)

lemma copy_source: "is_source mb t \<Longrightarrow> copy D u t mb = (Inr (), mb)"
  by (auto simp: is_source_def copy_def)

lemma move_source: "is_source mb t \<Longrightarrow> move D u t mb = (Inr (), mb)"
  using is_source_iff [of mb t] by (auto simp: move_def bindE_def copy_source)

lemma move_not_source:
  assumes "\<not> is_source mb t" and "copy D u t mb = (Inr (), mb1)"
  shows "sent (snd (move D u t mb)) = sent mb1 @ [UidStore u ''+FLAGS'' (CHR ''('' # CHR 0x5C # ''Deleted)'')]"
proof -
  have "the_binding mb1 = the_binding mb"
    using frameD [OF frame_copy [OF env_indep_the_binding cache_indep_the_binding], of D u t mb] assms(2)
    by simp
  then have "\<not> is_source mb1 t"
    using assms(1) by (simp add: is_source_def the_binding_def)
  then have c: "\<not> mailbox_eq mb1 t \<and> ne_name t (name mb1)"
    by (simp add: is_source_iff)
  show ?thesis
    using assms(2) c
    by (auto simp: move_def bindE_def call_def raise_def ret_def split: prod.splits sum.splits)
qed

text \<open>
  Claim C7.  A \<^verbatim>\<open>move\<close> whose target is the source folder (its own name, or a
  handle equal to the mailbox) returns and leaves the whole state as it is: no
  request is recorded, so no copy and no store, and the server is not touched.
  Hence a \<^verbatim>\<open>move\<close> that issues any request has a target other than the source
  folder; and for such a target, once the copy has returned, the next and last
  request is the store of the deleted flag on \<open>u\<close>.
\<close>

theorem move_to_source_is_noop:
  "(is_source mb t \<longrightarrow> move D u t mb = (Inr (), mb))
   \<and> (sent (snd (move D u t mb)) \<noteq> sent mb \<longrightarrow> \<not> is_source mb t)
   \<and> (\<not> is_source mb t \<longrightarrow> (\<forall>mb1. copy D u t mb = (Inr (), mb1) \<longrightarrow>
        sent (snd (move D u t mb))
          = sent mb1 @ [UidStore u ''+FLAGS'' (CHR ''('' # CHR 0x5C # ''Deleted)'')]))"
  using move_source [of mb t D u] move_not_source [of mb t D u] by auto

theorem move_to_source_is_noop_witness:
  "is_source mailbox0 (TStr ''INBOX'')
   \<and> move ref_deps 5 (TStr ''INBOX'') mailbox0 = (Inr (), mailbox0)
   \<and> is_source mailbox0 (TImap 0 ''INBOX'')
   \<and> move ref_deps 5 (TImap 0 ''INBOX'') mailbox0 = (Inr (), mailbox0)
   \<and> \<not> is_source mailbox0 (TStr ''Trash'')
   \<and> fst (copy ref_deps 5 (TStr ''Trash'') mailbox0) = Inr ()
   \<and> sent (snd (move ref_deps 5 (TStr ''Trash'') mailbox0))
       = [UidCopy 5 ''Trash'', UidStore 5 ''+FLAGS'' (CHR ''('' # CHR 0x5C # ''Deleted)'')]"
proof -
  have a: "is_source mailbox0 (TStr ''INBOX'')" by code_simp
  have b: "is_source mailbox0 (TImap 0 ''INBOX'')" by code_simp
  have c: "\<not> is_source mailbox0 (TStr ''Trash'')" by code_simp
  have d: "fst (copy ref_deps 5 (TStr ''Trash'') mailbox0) = Inr ()" by code_simp
  have e: "sent (snd (copy ref_deps 5 (TStr ''Trash'') mailbox0)) = [UidCopy 5 ''Trash'']"
    by code_simp
  have f: "copy ref_deps 5 (TStr ''Trash'') mailbox0
      = (Inr (), snd (copy ref_deps 5 (TStr ''Trash'') mailbox0))"
    using d by (simp add: prod_eq_iff)
  from move_to_source_is_noop [of mailbox0 "TStr ''INBOX''" ref_deps 5]
    move_to_source_is_noop [of mailbox0 "TImap 0 ''INBOX''" ref_deps 5]
    move_to_source_is_noop [of mailbox0 "TStr ''Trash''" ref_deps 5]
    a b c d e f
  show ?thesis by simp
qed

subsection \<open>Reconnecting\<close>

text \<open>
  Claim C5, as amended.  \<^verbatim>\<open>reconnect\<close> does not touch the message cache: after
  it, whether it returned or raised, the cached UID and the cached text are
  what they were, and a raw read of the cached UID is served from the cache
  with no request.
\<close>

theorem reconnect_keeps_cache:
  "cached_uid (snd (reconnect D mb)) = cached_uid mb
   \<and> cached_text (snd (reconnect D mb)) = cached_text mb
   \<and> (cached_uid mb = Some u \<longrightarrow>
        cache_message D u (snd (reconnect D mb)) = (Inr (cached_text mb), snd (reconnect D mb)))"
proof -
  have k: "cached_uid (snd (reconnect D mb)) = cached_uid mb"
      "cached_text (snd (reconnect D mb)) = cached_text mb"
    using frame_cacheD [OF frame_reconnect [OF env_indep_the_cache], of D mb]
    by simp_all
  show ?thesis using k cache_message_hit [of "snd (reconnect D mb)" u D] by simp
qed

theorem reconnect_keeps_cache_witness:
  "cached_uid mailbox5 = Some 5
   \<and> cached_uid (snd (reconnect ref_deps mailbox5)) = Some 5
   \<and> cached_text (snd (reconnect ref_deps mailbox5)) = Some ''Subject: five''
   \<and> cache_message ref_deps 5 (snd (reconnect ref_deps mailbox5))
       = (Inr (Some ''Subject: five''), snd (reconnect ref_deps mailbox5))"
proof -
  have h: "cached_uid mailbox5 = Some 5" by code_simp
  have t: "cached_text mailbox5 = Some ''Subject: five''" by code_simp
  from reconnect_keeps_cache [of ref_deps mailbox5 5] h t show ?thesis by simp
qed

text \<open>
  Claim C5 as stated fails: with UID 5 cached, a \<^verbatim>\<open>reconnect\<close> that succeeds
  leaves UID 5 and its text in the cache, and the next raw read of UID 5 issues
  no request.
\<close>

theorem reconnect_clears_cache_counterexample:
  "fst (reconnect ref_deps mailbox5) = Inr ()
   \<and> cached_uid mailbox5 = Some 5
   \<and> cached_uid (snd (reconnect ref_deps mailbox5)) = Some 5
   \<and> cached_text (snd (reconnect ref_deps mailbox5)) = Some ''Subject: five''
   \<and> \<not> (cached_uid (snd (reconnect ref_deps mailbox5)) = None
        \<and> cached_text (snd (reconnect ref_deps mailbox5)) = None)
   \<and> fst (cache_message ref_deps 5 (snd (reconnect ref_deps mailbox5))) = Inr (Some ''Subject: five'')
   \<and> sent (snd (cache_message ref_deps 5 (snd (reconnect ref_deps mailbox5))))
       = sent (snd (reconnect ref_deps mailbox5))
   \<and> sent (snd (reconnect ref_deps mailbox5))
       = [UidFetch 5 ''(RFC822)'', Reconnect, Login, Select ''INBOX'']"
  by code_simp

subsection \<open>Searching when the reply has no string body\<close>

text \<open>
  Claim C3.  \<^verbatim>\<open>search\<close> splits \<^verbatim>\<open>data[0]\<close> before it looks at the status and
  outside its \<^verbatim>\<open>try\<close>: when the session answers with the data \<^verbatim>\<open>[None]\<close> (what
  \<^verbatim>\<open>imaplib\<close> returns when the server sent no untagged \<^verbatim>\<open>SEARCH\<close> line), an
  \<^verbatim>\<open>AttributeError\<close> escapes, with status \<^verbatim>\<open>OK\<close> and with status \<^verbatim>\<open>NO\<close> alike.
\<close>

theorem search_none_body:
  "fst (search (canned_deps (Inr (''OK'', [RNone]))) (Some ''ALL'') None (init_mailbox () ''INBOX''))
     = Inl (Exn AttributeError ''NoneType object has no attribute split'' [])
   \<and> fst (search (canned_deps (Inr (''NO'', [RNone]))) (Some ''ALL'') None (init_mailbox () ''INBOX''))
     = Inl (Exn AttributeError ''NoneType object has no attribute split'' [])"
  by code_simp

subsection \<open>keys and iterkeys\<close>

text \<open>
  Claim C4.  \<^verbatim>\<open>keys\<close> calls \<^verbatim>\<open>search(None, "ALL")\<close>, that is, with the criteria
  \<^verbatim>\<open>None\<close> and the charset \<^verbatim>\<open>"ALL"\<close>: in the scenario mailbox \<^verbatim>\<open>iterkeys\<close> and
  \<^verbatim>\<open>search("ALL")\<close> give the UIDs 5, 9, 12, and \<^verbatim>\<open>keys\<close> sends the criteria
  \<^verbatim>\<open>(None)\<close> and raises.
\<close>

theorem keys_differs_from_iterkeys:
  "fst (iterkeys ref_deps mailbox0) = Inr [5, 9, 12]
   \<and> fst (search ref_deps (Some ''ALL'') None mailbox0) = Inr [5, 9, 12]
   \<and> fst (keys ref_deps mailbox0) = Inl (Exn OtherError ''command error: BAD'' [])
   \<and> sent (snd (iterkeys ref_deps mailbox0)) = [UidSearch None ''(ALL)'']
   \<and> sent (snd (keys ref_deps mailbox0)) = [UidSearch (Some ''ALL'') ''(None)'']"
  by code_simp

subsection \<open>pop of a UID that is gone\<close>

text \<open>
  Claim C10.  In the scenario mailbox \<^verbatim>\<open>pop(5)\<close> returns message 5 and expunges
  it; UID 5 stays in the cache.  A second \<^verbatim>\<open>pop(5, default)\<close> then reads the
  text from the cache, asks the server for the flags of a UID that is gone and
  raises \<^verbatim>\<open>ValueError\<close>, with a default and without one; for UID 7, which was
  never there, the default is returned.
\<close>

theorem pop_twice_raises_ValueError:
  "fst (pop ref_deps 5 None mailbox0)
     = Inr \<lparr>rfc822 = Some ''Subject: five'', imapflags = [SEEN], internaldate = Some [], msgsize = 13\<rparr>
   \<and> fst (search ref_deps (Some ''ALL'') None (snd (pop ref_deps 5 None mailbox0))) = Inr [9, 12]
   \<and> cached_uid (snd (pop ref_deps 5 None mailbox0)) = Some 5
   \<and> fst (pop ref_deps 5 (Some view0) (snd (pop ref_deps 5 None mailbox0)))
     = Inl (Exn ValueError
         ''Unexpected results while fetching flags from server for message %s; response was (%s, %s)''
         [AInt 5, AStr ''OK'', AData [RNone]])
   \<and> fst (pop ref_deps 5 None (snd (pop ref_deps 5 None mailbox0)))
     = Inl (Exn ValueError
         ''Unexpected results while fetching flags from server for message %s; response was (%s, %s)''
         [AInt 5, AStr ''OK'', AData [RNone]])
   \<and> fst (pop ref_deps 7 (Some view0) (snd (pop ref_deps 5 None mailbox0))) = Inr view0"
  by code_simp

subsection \<open>The operations on the reference session\<close>

lemma call_ref:
  "on_ref D \<Longrightarrow>
   call D r mb = (fst (ref_respond (env mb) r),
                  mb\<lparr>env := snd (ref_respond (env mb) r), sent := sent mb @ [r]\<rparr>)"
  by (simp add: on_ref_def call_def split: prod.splits)

lemma in_selected_bound:
  "selected w = Some n \<Longrightarrow> map_of (folders w) n = Some f \<Longrightarrow> in_selected w k = k n f"
  by (simp add: in_selected_def)

lemma put_folder_simps:
  "selected (put_folder n f w) = selected w"
  "boxes (put_folder n f w) = boxes w"
  "map_of (folders (put_folder n f w)) = (map_of (folders w))(n \<mapsto> f)"
  by (simp_all add: put_folder_def update_conv')

lemma flag_list_ALL: "flag_list ''(ALL)'' = [''ALL'']"
  by (simp add: flag_list_def py_split_def isspace_def)

lemma flag_list_UNDELETED: "flag_list ''(UNDELETED)'' = [''UNDELETED'']"
  by (simp add: flag_list_def py_split_def isspace_def)

lemma flag_list_DELETED: "flag_list (CHR ''('' # CHR 0x5C # ''Deleted)'') = [DELETED]"
  by (simp add: flag_list_def py_split_def isspace_def)

lemma search_reply_ALL:
  "search_reply ''(ALL)'' ms = ok [RStr (join_sp (map (\<lambda>m. str_int (m_uid m)) ms))]"
  by (simp add: search_reply_def flag_list_ALL key_test_def)

lemma search_reply_UNDELETED:
  "search_reply ''(UNDELETED)'' ms
     = ok [RStr (join_sp (map (\<lambda>m. str_int (m_uid m)) (expunged ms)))]"
  by (simp add: search_reply_def flag_list_UNDELETED key_test_def expunged_def)

lemma parse_uid_list':
  "those (map py_int (py_split (join_sp (map (\<lambda>m. str_int (m_uid m)) ms)))) = Some (map m_uid ms)"
  using parse_uid_list [of "map m_uid ms"] by (simp add: comp_def)

lemma search_ALL_ref:
  assumes "on_ref D" and "bound_to mb f"
  shows "search D (Some ''ALL'') None mb
     = (Inr (map m_uid (msgs f)), mb\<lparr>sent := sent mb @ [UidSearch None ''(ALL)'']\<rparr>)"
  using assms
  by (simp add: search_def bindE_def call_ref bound_to_def in_selected_bound search_reply_ALL
      ok_def parse_uid_list' ret_def)

lemma search_UNDELETED_ref:
  assumes "on_ref D" and "bound_to mb f"
  shows "search D (Some ''UNDELETED'') None mb
     = (Inr (map m_uid (expunged (msgs f))), mb\<lparr>sent := sent mb @ [UidSearch None ''(UNDELETED)'']\<rparr>)"
  using assms
  by (simp add: search_def bindE_def call_ref bound_to_def in_selected_bound search_reply_UNDELETED
      ok_def parse_uid_list' ret_def)

lemma expunge_ref:
  assumes "on_ref D" and "bound_to mb f"
  shows "expunge D mb
     = (Inr (), mb\<lparr>env := put_folder (name mb) (f\<lparr>msgs := expunged (msgs f)\<rparr>) (env mb),
                    sent := sent mb @ [Expunge]\<rparr>)"
  using assms
  by (simp add: expunge_def bindE_def call_ref bound_to_def in_selected_bound ok_def ret_def)

lemma fetch_reply_FLAGS_ok: "\<exists>d. fetch_reply ms u ''(FLAGS)'' = ok d"
  by (auto simp: fetch_reply_def Let_def split: option.splits)

lemma store_deleted_ref:
  assumes "on_ref D" and "bound_to mb f"
  shows "add_imapflag D u [DELETED] mb
     = (Inr (), mb\<lparr>env := put_folder (name mb)
                             (f\<lparr>msgs := on_uid u (add_flags [DELETED]) (msgs f)\<rparr>) (env mb),
                    sent := sent mb @ [UidStore u ''+FLAGS'' (CHR ''('' # CHR 0x5C # ''Deleted)'')]\<rparr>)"
proof -
  obtain d where d: "fetch_reply (on_uid u (add_flags [DELETED]) (msgs f)) u ''(FLAGS)'' = ok d"
    using fetch_reply_FLAGS_ok by blast
  show ?thesis
    using assms
    by (simp add: bindE_def call_ref bound_to_def in_selected_bound flag_list_DELETED d ok_def ret_def)
qed

lemma bound_to_put:
  "bound_to mb f \<Longrightarrow>
   bound_to (mb\<lparr>env := put_folder (name mb) f' (env mb), sent := s\<rparr>) f'"
  by (simp add: bound_to_def put_folder_simps)

lemma bound_to_sent: "bound_to (mb\<lparr>sent := s\<rparr>) f = bound_to mb f"
  by (simp add: bound_to_def)



lemma map_m_uid_on_uid: "map m_uid (on_uid u (add_flags fs) ms) = map m_uid ms"
  by (induction ms) (simp_all add: on_uid_def add_flags_def)

lemma copy_ref:
  assumes "on_ref D" and "bound_to mb f"
    and "t = TStr tn \<or> t = TImap (server_id mb) tn"
    and "tn \<noteq> name mb"
    and "map_of (folders (env mb)) tn = Some g"
    and "find (\<lambda>m. m_uid m = u) (msgs f) = Some m"
  shows "copy D u t mb
     = (Inr (), mb\<lparr>env := put_folder tn (deliver m g) (env mb),
                    sent := sent mb @ [UidCopy u tn]\<rparr>)"
  using assms
  by (auto simp: copy_def bindE_def call_ref bound_to_def in_selected_bound ok_def ret_def)

lemma move_ref:
  assumes "on_ref D" and "bound_to mb f"
    and "t = TStr tn \<or> t = TImap (server_id mb) tn"
    and "tn \<noteq> name mb"
    and "map_of (folders (env mb)) tn = Some g"
    and "find (\<lambda>m. m_uid m = u) (msgs f) = Some m"
  shows "move D u t mb
     = (Inr (), mb\<lparr>env := put_folder (name mb)
                             (f\<lparr>msgs := on_uid u (add_flags [DELETED]) (msgs f)\<rparr>)
                             (put_folder tn (deliver m g) (env mb)),
                    sent := sent mb @ [UidCopy u tn,
                       UidStore u ''+FLAGS'' (CHR ''('' # CHR 0x5C # ''Deleted)'')]\<rparr>)"
proof -
  let ?mb1 = "mb\<lparr>env := put_folder tn (deliver m g) (env mb), sent := sent mb @ [UidCopy u tn]\<rparr>"
  have b1: "bound_to ?mb1 f"
    using assms(2,4) by (auto simp: bound_to_def put_folder_simps)
  obtain d where d: "fetch_reply (on_uid u (add_flags [DELETED]) (msgs f)) u ''(FLAGS)'' = ok d"
    using fetch_reply_FLAGS_ok by blast
  have ns: "\<not> mailbox_eq ?mb1 t \<and> ne_name t (name ?mb1)"
    using assms(3,4) by auto
  have st: "call D (UidStore u ''+FLAGS'' (CHR ''('' # CHR 0x5C # ''Deleted)'')) ?mb1
      = (ok d, ?mb1\<lparr>env := put_folder (name mb)
                             (f\<lparr>msgs := on_uid u (add_flags [DELETED]) (msgs f)\<rparr>) (env ?mb1),
                    sent := sent ?mb1 @ [UidStore u ''+FLAGS'' (CHR ''('' # CHR 0x5C # ''Deleted)'')]\<rparr>)"
    using b1 assms(1)
    by (simp add: call_ref bound_to_def in_selected_bound flag_list_DELETED d)
  show ?thesis
    unfolding move_def bindE_def copy_ref [OF assms]
    using ns by (simp add: st ok_def ret_def)
qed

lemma DELETED_add_flags: "DELETED \<in> set (m_flags (add_flags [DELETED] m))"
  by (simp add: add_flags_def)

lemma expunged_on_uid_deleted:
  "expunged (on_uid u (add_flags [DELETED]) ms) = filter (\<lambda>m. m_uid m \<noteq> u) (expunged ms)"
  by (induction ms) (auto simp: expunged_def on_uid_def add_flags_def)

lemma flagged_on_uid:
  "list_all (\<lambda>m'. m_uid m' = u \<longrightarrow> DELETED \<in> set (m_flags m'))
     (on_uid u (add_flags [DELETED]) ms)"
  by (induction ms) (simp_all add: on_uid_def add_flags_def)

lemma find_Some_mem: "find P xs = Some x \<Longrightarrow> x \<in> set xs \<and> P x"
  by (induction xs) (auto split: if_splits)

lemma discard_ref:
  assumes ref: "on_ref D" and bnd: "bound_to mb f"
    and present: "find (\<lambda>m. m_uid m = u) (msgs f) = Some m"
    and tr: "trash mb = None
       \<or> ((trash mb = Some (TStr tn) \<or> trash mb = Some (TImap (server_id mb) tn))
           \<and> tn \<noteq> name mb \<and> map_of (folders (env mb)) tn = Some g)"
  shows "discard D u mb
     = (Inr (),
        mb\<lparr>env := put_folder (name mb) (f\<lparr>msgs := on_uid u (add_flags [DELETED]) (msgs f)\<rparr>)
                   (if trash mb = None then env mb else put_folder tn (deliver m g) (env mb)),
           sent := sent mb @
             (if trash mb = None then [] else [UidCopy u tn])
             @ [UidStore u ''+FLAGS'' (CHR ''('' # CHR 0x5C # ''Deleted)'')]\<rparr>)"
proof (cases "trash mb")
  case None
  then show ?thesis
    using store_deleted_ref [OF ref bnd, of u] by (simp add: discard_def)
next
  case (Some t)
  with tr have t: "t = TStr tn \<or> t = TImap (server_id mb) tn" "tn \<noteq> name mb"
      "map_of (folders (env mb)) tn = Some g"
    by auto
  show ?thesis
    using Some move_ref [OF ref bnd t present] by (simp add: discard_def)
qed

text \<open>
  Claim C6, as amended.  On the reference session, for a UID \<open>u\<close> present in the
  bound folder: \<^verbatim>\<open>discard(u)\<close> returns; every message with UID \<open>u\<close> in the source
  folder now carries the deleted flag; \<open>u\<close> is still a member of
  \<^verbatim>\<open>search("ALL")\<close>, and is no longer one after \<^verbatim>\<open>expunge()\<close>.  This holds with no
  trash configured, where the one request is the store of the flag, and with a
  trash folder configured (another existing folder of the same server, by name
  or by handle), where the requests are the copy and then the store, and the
  trash folder has gained a copy of the message under its next UID.
\<close>

theorem discard_flags_until_expunge:
  assumes ref: "on_ref D" and bnd: "bound_to mb f"
    and present: "find (\<lambda>m. m_uid m = u) (msgs f) = Some m"
    and tr: "trash mb = None
       \<or> ((trash mb = Some (TStr tn) \<or> trash mb = Some (TImap (server_id mb) tn))
           \<and> tn \<noteq> name mb \<and> map_of (folders (env mb)) tn = Some g)"
  shows "fst (discard D u mb) = Inr ()
    \<and> bound_to (snd (discard D u mb)) (f\<lparr>msgs := on_uid u (add_flags [DELETED]) (msgs f)\<rparr>)
    \<and> list_all (\<lambda>m'. m_uid m' = u \<longrightarrow> DELETED \<in> set (m_flags m'))
         (on_uid u (add_flags [DELETED]) (msgs f))
    \<and> all_uids D (snd (discard D u mb)) = Inr (map m_uid (msgs f))
    \<and> u \<in> set (map m_uid (msgs f))
    \<and> all_uids D (snd (expunge D (snd (discard D u mb))))
        = Inr (map m_uid (filter (\<lambda>m'. m_uid m' \<noteq> u) (expunged (msgs f))))
    \<and> (trash mb = None \<longrightarrow>
          sent (snd (discard D u mb))
            = sent mb @ [UidStore u ''+FLAGS'' (CHR ''('' # CHR 0x5C # ''Deleted)'')])
    \<and> (trash mb \<noteq> None \<longrightarrow>
          sent (snd (discard D u mb))
            = sent mb @ [UidCopy u tn, UidStore u ''+FLAGS'' (CHR ''('' # CHR 0x5C # ''Deleted)'')]
          \<and> map_of (folders (env (snd (discard D u mb)))) tn
            = Some (g\<lparr>msgs := msgs g @ [m\<lparr>m_uid := uidnext g\<rparr>], uidnext := uidnext g + 1\<rparr>))"
proof -
  let ?f' = "f\<lparr>msgs := on_uid u (add_flags [DELETED]) (msgs f)\<rparr>"
  let ?mb' = "snd (discard D u mb)"
  note d = discard_ref [OF assms]
  have r: "fst (discard D u mb) = Inr ()" by (simp add: d)
  have b: "bound_to ?mb' ?f'"
    using bnd by (simp add: d bound_to_def put_folder_simps)
  have fl: "list_all (\<lambda>m'. m_uid m' = u \<longrightarrow> DELETED \<in> set (m_flags m'))
         (on_uid u (add_flags [DELETED]) (msgs f))"
    by (rule flagged_on_uid)
  have a: "all_uids D ?mb' = Inr (map m_uid (msgs f))"
    by (simp add: all_uids_def search_ALL_ref [OF ref b] map_m_uid_on_uid)
  have mem: "u \<in> set (map m_uid (msgs f))"
    using find_Some_mem [OF present] by force
  have e: "all_uids D (snd (expunge D ?mb'))
        = Inr (map m_uid (filter (\<lambda>m'. m_uid m' \<noteq> u) (expunged (msgs f))))"
  proof -
    have "bound_to (snd (expunge D ?mb')) (?f'\<lparr>msgs := expunged (msgs ?f')\<rparr>)"
      using b by (simp add: expunge_ref [OF ref b] bound_to_def put_folder_simps)
    from search_ALL_ref [OF ref this] show ?thesis
      by (simp add: all_uids_def expunged_on_uid_deleted)
  qed
  have s1: "trash mb = None \<longrightarrow>
          sent ?mb' = sent mb @ [UidStore u ''+FLAGS'' (CHR ''('' # CHR 0x5C # ''Deleted)'')]"
    by (simp add: d)
  have s2: "trash mb \<noteq> None \<longrightarrow>
          sent ?mb' = sent mb @ [UidCopy u tn, UidStore u ''+FLAGS'' (CHR ''('' # CHR 0x5C # ''Deleted)'')]
          \<and> map_of (folders (env ?mb')) tn
            = Some (g\<lparr>msgs := msgs g @ [m\<lparr>m_uid := uidnext g\<rparr>], uidnext := uidnext g + 1\<rparr>)"
    using tr by (auto simp: d put_folder_simps deliver_def)
  from r b fl a mem e s1 s2 show ?thesis by blast
qed

theorem discard_flags_until_expunge_witness:
  "on_ref ref_deps
   \<and> fst (discard ref_deps 5 mailbox0) = Inr ()
   \<and> all_uids ref_deps (snd (discard ref_deps 5 mailbox0)) = Inr [5, 9, 12]
   \<and> all_uids ref_deps (snd (expunge ref_deps (snd (discard ref_deps 5 mailbox0)))) = Inr [9, 12]
   \<and> sent (snd (discard ref_deps 5 mailbox0))
       = [UidStore 5 ''+FLAGS'' (CHR ''('' # CHR 0x5C # ''Deleted)'')]
   \<and> fst (discard ref_deps 5 mailbox0_trash) = Inr ()
   \<and> all_uids ref_deps (snd (discard ref_deps 5 mailbox0_trash)) = Inr [5, 9, 12]
   \<and> all_uids ref_deps (snd (expunge ref_deps (snd (discard ref_deps 5 mailbox0_trash)))) = Inr [9, 12]
   \<and> sent (snd (discard ref_deps 5 mailbox0_trash))
       = [UidCopy 5 ''Trash'', UidStore 5 ''+FLAGS'' (CHR ''('' # CHR 0x5C # ''Deleted)'')]
   \<and> map_of (folders (env (snd (discard ref_deps 5 mailbox0_trash)))) ''Trash''
       = Some \<lparr>msgs = [msg5\<lparr>m_uid := 1\<rparr>], uidnext = 2\<rparr>"
proof -
  let ?f = "\<lparr>msgs = [msg5, msg9, msg12], uidnext = 13\<rparr>"
  let ?g = "\<lparr>msgs = [], uidnext = 1\<rparr>"
  have ref: "on_ref ref_deps" by (simp add: on_ref_def ref_deps_def)
  have b1: "bound_to mailbox0 ?f" by code_simp
  have b2: "bound_to mailbox0_trash ?f" by code_simp
  have p: "find (\<lambda>m. m_uid m = 5) (msgs ?f) = Some msg5" by code_simp
  have t1: "trash mailbox0 = None
       \<or> ((trash mailbox0 = Some (TStr ''Trash'') \<or> trash mailbox0 = Some (TImap (server_id mailbox0) ''Trash''))
           \<and> ''Trash'' \<noteq> name mailbox0 \<and> map_of (folders (env mailbox0)) ''Trash'' = Some ?g)"
    by code_simp
  have t2: "trash mailbox0_trash = None
       \<or> ((trash mailbox0_trash = Some (TStr ''Trash'')
             \<or> trash mailbox0_trash = Some (TImap (server_id mailbox0_trash) ''Trash''))
           \<and> ''Trash'' \<noteq> name mailbox0_trash
           \<and> map_of (folders (env mailbox0_trash)) ''Trash'' = Some ?g)"
    by code_simp
  have n1: "trash mailbox0 = None" "sent mailbox0 = []" by code_simp+
  have n2: "trash mailbox0_trash \<noteq> None" "sent mailbox0_trash = []" by code_simp+
  have e: "map m_uid (msgs ?f) = [5, 9, 12]"
    "map m_uid (filter (\<lambda>m'. m_uid m' \<noteq> 5) (expunged (msgs ?f))) = [9, 12]"
    by code_simp+
  note w1 = discard_flags_until_expunge [OF ref b1 p t1, unfolded e]
  note w2 = discard_flags_until_expunge [OF ref b2 p t2, unfolded e]
  have g: "?g\<lparr>msgs := msgs ?g @ [msg5\<lparr>m_uid := uidnext ?g\<rparr>], uidnext := uidnext ?g + 1\<rparr>
      = \<lparr>msgs = [msg5\<lparr>m_uid := 1\<rparr>], uidnext = 2\<rparr>"
    by simp
  from w1 n1(1) have "sent (snd (discard ref_deps 5 mailbox0))
       = sent mailbox0 @ [UidStore 5 ''+FLAGS'' (CHR ''('' # CHR 0x5C # ''Deleted)'')]"
    by blast
  then have a1: "sent (snd (discard ref_deps 5 mailbox0))
       = [UidStore 5 ''+FLAGS'' (CHR ''('' # CHR 0x5C # ''Deleted)'')]"
    by (simp only: n1(2) append_Nil)
  from w2 n2(1) have "sent (snd (discard ref_deps 5 mailbox0_trash))
       = sent mailbox0_trash @ [UidCopy 5 ''Trash'', UidStore 5 ''+FLAGS'' (CHR ''('' # CHR 0x5C # ''Deleted)'')]
     \<and> map_of (folders (env (snd (discard ref_deps 5 mailbox0_trash)))) ''Trash''
       = Some (?g\<lparr>msgs := msgs ?g @ [msg5\<lparr>m_uid := uidnext ?g\<rparr>], uidnext := uidnext ?g + 1\<rparr>)"
    by blast
  then have a2: "sent (snd (discard ref_deps 5 mailbox0_trash))
       = [UidCopy 5 ''Trash'', UidStore 5 ''+FLAGS'' (CHR ''('' # CHR 0x5C # ''Deleted)'')]
     \<and> map_of (folders (env (snd (discard ref_deps 5 mailbox0_trash)))) ''Trash''
       = Some \<lparr>msgs = [msg5\<lparr>m_uid := 1\<rparr>], uidnext = 2\<rparr>"
    by (simp only: n2(2) append_Nil g)
  from ref w1 w2 a1 a2 show ?thesis by (simp only: simp_thms)
qed

text \<open>
  Claim C6 as stated fails: with a trash folder configured, UID 5 is still a
  member of \<^verbatim>\<open>search("ALL")\<close> of the source folder after \<^verbatim>\<open>discard(5)\<close>; no
  expunge has been issued.
\<close>

theorem discard_to_trash_counterexample:
  "trash mailbox0_trash = Some (TStr ''Trash'')
   \<and> fst (search ref_deps (Some ''ALL'') None mailbox0_trash) = Inr [5, 9, 12]
   \<and> fst (discard ref_deps 5 mailbox0_trash) = Inr ()
   \<and> fst (search ref_deps (Some ''ALL'') None (snd (discard ref_deps 5 mailbox0_trash)))
       = Inr [5, 9, 12]
   \<and> 5 \<in> set [5, 9, 12 :: int]
   \<and> Expunge \<notin> set (sent (snd (discard ref_deps 5 mailbox0_trash)))"
  by code_simp

subsection \<open>Reading the size out of a fetch reply\<close>




subsection \<open>Reading a message on the reference session\<close>

lemma step_to_refl: "step_to mb mb"
  by (simp add: step_to_def)

lemma step_to_trans: "step_to a b \<Longrightarrow> step_to b c \<Longrightarrow> step_to a c"
  by (simp add: step_to_def)

lemma step_to_put:
  "step_to mb (mb\<lparr>env := put_folder (name mb) f' (env mb), sent := s\<rparr>)"
  by (simp add: step_to_def put_folder_simps)

lemma step_to_sent: "step_to mb (mb\<lparr>sent := s\<rparr>)"
  by (simp add: step_to_def)














subsection \<open>popitem on the reference session\<close>















subsection \<open>add on the reference session\<close>

lemma expunged_append: "expunged (xs @ ys) = expunged xs @ expunged ys"
  by (simp add: expunged_def)

lemma Max_fresh:
  assumes "list_all (\<lambda>m. m_uid m < n) ms"
  shows "Max (set (map m_uid ms @ [n])) = n"
proof -
  have "\<forall>x \<in> set (map m_uid ms @ [n]). x \<le> n"
    using assms by (auto simp: list_all_iff)
  then show ?thesis by (intro Max_eqI) auto
qed

text \<open>
  Claim C2, as amended.  On the reference session, where every UID of the
  folder is below the next UID, for a message that does not carry the deleted
  flag: \<^verbatim>\<open>add\<close> issues the append and one search for \<^verbatim>\<open>UNDELETED\<close>, and no
  expunge; the folder then holds all its former messages, those flagged
  deleted included, followed by the new one; \<^verbatim>\<open>add\<close> returns the UID of the new
  message, which is the last UID of the \<^verbatim>\<open>UNDELETED\<close> list and the maximum of the
  list that \<^verbatim>\<open>search("ALL")\<close> returns next.
\<close>

theorem add_returns_appended_uid:
  assumes ref: "on_ref D" and bnd: "bound_to mb f"
    and fresh: "list_all (\<lambda>m. m_uid m < uidnext f) (msgs f)"
    and und: "DELETED \<notin> set (flag_list (flagstring D message))"
  shows "fst (add D message mb) = Inr (uidnext f)
    \<and> sent (snd (add D message mb))
        = sent mb @ [Append (name mb) (flagstring D message) (internaldatestring D message)
                       (flatten D message),
                     UidSearch None ''(UNDELETED)'']
    \<and> bound_to (snd (add D message mb))
        (f\<lparr>msgs := msgs f @ [\<lparr>m_uid = uidnext f,
                                m_flags = remdups (flag_list (flagstring D message)),
                                m_body = flatten D message,
                                m_date = internaldatestring D message\<rparr>],
           uidnext := uidnext f + 1\<rparr>)
    \<and> all_uids D (snd (add D message mb)) = Inr (map m_uid (msgs f) @ [uidnext f])
    \<and> Max (set (map m_uid (msgs f) @ [uidnext f])) = uidnext f"
proof -
  let ?new = "\<lparr>m_uid = uidnext f, m_flags = remdups (flag_list (flagstring D message)),
               m_body = flatten D message, m_date = internaldatestring D message\<rparr>"
  let ?f1 = "f\<lparr>msgs := msgs f @ [?new], uidnext := uidnext f + 1\<rparr>"
  let ?ap = "Append (name mb) (flagstring D message) (internaldatestring D message) (flatten D message)"
  let ?mb1 = "mb\<lparr>env := put_folder (name mb) ?f1 (env mb), sent := sent mb @ [?ap]\<rparr>"
  have c: "call D ?ap mb = (ok [RStr ''APPEND completed''], ?mb1)"
    using bnd by (simp add: call_ref [OF ref] bound_to_def deliver_def)
  have b1: "bound_to ?mb1 ?f1"
    using bnd by (simp add: bound_to_def put_folder_simps)
  have ex: "expunged (msgs ?f1) = expunged (msgs f) @ [?new]"
    using und by (simp add: expunged_append) (simp add: expunged_def)
  note s = search_UNDELETED_ref [OF ref b1, unfolded ex]
  have a: "add D message mb
      = (Inr (uidnext f), ?mb1\<lparr>sent := sent ?mb1 @ [UidSearch None ''(UNDELETED)'']\<rparr>)"
    by (simp add: add_def Let_def bindE_def c ok_def get_all_uids_def s ret_def)
  have b2: "bound_to (?mb1\<lparr>sent := sent ?mb1 @ [UidSearch None ''(UNDELETED)'']\<rparr>) ?f1"
    using b1 by (simp add: bound_to_def)
  show ?thesis
    using search_ALL_ref [OF ref b2] b2 Max_fresh [OF fresh]
    by (simp add: a all_uids_def)
qed

theorem add_returns_appended_uid_witness:
  "on_ref ref_deps
   \<and> bound_to mailbox0 \<lparr>msgs = [msg5, msg9, msg12], uidnext = 13\<rparr>
   \<and> list_all (\<lambda>m. m_uid m < 13) [msg5, msg9, msg12]
   \<and> DELETED \<notin> set (flag_list (flagstring ref_deps view0))
   \<and> fst (add ref_deps view0 mailbox0) = Inr 13
   \<and> sent (snd (add ref_deps view0 mailbox0))
       = [Append ''INBOX'' ''()'' ''01-Jan-2008 00:00:00 +0000'' ''Subject: none'',
          UidSearch None ''(UNDELETED)'']
   \<and> all_uids ref_deps (snd (add ref_deps view0 mailbox0)) = Inr [5, 9, 12, 13]
   \<and> Max (set [5, 9, 12, 13 :: int]) = 13"
proof -
  let ?f = "\<lparr>msgs = [msg5, msg9, msg12], uidnext = 13\<rparr>"
  have ref: "on_ref ref_deps" by (simp add: on_ref_def ref_deps_def)
  have b: "bound_to mailbox0 ?f" by code_simp
  have fr0: "list_all (\<lambda>m. m_uid m < 13) [msg5, msg9, msg12]" by code_simp
  then have fr: "list_all (\<lambda>m. m_uid m < uidnext ?f) (msgs ?f)" by simp
  have un: "DELETED \<notin> set (flag_list (flagstring ref_deps view0))" by code_simp
  have u: "map m_uid (msgs ?f) @ [uidnext ?f] = [5, 9, 12, 13]" by code_simp
  have s: "sent mailbox0 @ [Append (name mailbox0) (flagstring ref_deps view0)
            (internaldatestring ref_deps view0) (flatten ref_deps view0),
          UidSearch None ''(UNDELETED)'']
       = [Append ''INBOX'' ''()'' ''01-Jan-2008 00:00:00 +0000'' ''Subject: none'',
          UidSearch None ''(UNDELETED)'']"
    by code_simp
  have n: "uidnext ?f = 13" by simp
  note w = add_returns_appended_uid [OF ref b fr un]
  note w1 = w [THEN conjunct1, unfolded n]
  note w2 = w [THEN conjunct2, THEN conjunct1, unfolded s]
  note w4 = w [THEN conjunct2, THEN conjunct2, THEN conjunct2, THEN conjunct1, unfolded u]
  have u2: "map m_uid (msgs ?f) @ [13] = [5, 9, 12, 13]" by code_simp
  note w5 = w [THEN conjunct2, THEN conjunct2, THEN conjunct2, THEN conjunct2, unfolded n u2]
  show ?thesis
    by (intro conjI ref b fr0 un w1 w2 w4 w5)
qed

text \<open>
  Claim C2 as stated fails.  \<^verbatim>\<open>add\<close> does not flush: with UID 5 flagged
  deleted, after \<^verbatim>\<open>add\<close> no expunge has been issued and UID 5 is still listed by
  \<^verbatim>\<open>search("ALL")\<close> and by \<^verbatim>\<open>search("DELETED")\<close>.  And \<^verbatim>\<open>add\<close> returns the last
  undeleted UID: for a message appended with the deleted flag it returns 12,
  while the maximum of \<^verbatim>\<open>search("ALL")\<close> is 13.
\<close>

theorem add_flushes_counterexample:
  "fst (search ref_deps (Some ''DELETED'') None (snd (discard ref_deps 5 mailbox0))) = Inr [5]
   \<and> fst (add ref_deps view0 (snd (discard ref_deps 5 mailbox0))) = Inr 13
   \<and> Expunge \<notin> set (sent (snd (add ref_deps view0 (snd (discard ref_deps 5 mailbox0)))))
   \<and> fst (search ref_deps (Some ''ALL'') None
            (snd (add ref_deps view0 (snd (discard ref_deps 5 mailbox0))))) = Inr [5, 9, 12, 13]
   \<and> fst (search ref_deps (Some ''DELETED'') None
            (snd (add ref_deps view0 (snd (discard ref_deps 5 mailbox0))))) = Inr [5]
   \<and> fst (add ref_deps view_deleted mailbox0) = Inr 12
   \<and> fst (search ref_deps (Some ''ALL'') None (snd (add ref_deps view_deleted mailbox0)))
       = Inr [5, 9, 12, 13]
   \<and> Max (set [5, 9, 12, 13 :: int]) \<noteq> 12"
  by code_simp

end
